theory Spec2Isabelle
  imports Complex_Main "HOL-Library.AList"
begin

section \<open>Python values and the dynamic operations the plugins use\<close>

text \<open>
  The plugins of \<^verbatim>\<open>plugins.py\<close> work on dynamically typed packets: nested
  dictionaries, lists and scalars. A value is modelled by \<open>pyval\<close>. A dictionary is an
  association list in insertion order whose keys are strings (packets and configurations
  come from JSON, YAML and the radio library's dictionaries). A float is modelled by the
  real number it denotes (NaN and the infinities are not represented); a string or a
  bytes object by a \<open>string\<close>, one \<open>char\<close> per code point or byte.

  A raised exception is the \<open>Inl\<close> of a sum; \<open>LibError\<close> stands for any exception
  raised inside a library the repository calls (JSON decoding, file access, the JWE
  library, the broker client and so on).
\<close>

datatype py_error =
  KeyError | IndexError | TypeError | ValueError | AttributeError | OverflowError | LibError

datatype pyval =
    PNone
  | PBool bool
  | PInt int
  | PFloat real
  | PStr string
  | PBytes string
  | PList "pyval list"
  | PDict "(string \<times> pyval) list"

type_synonym 'a result = "py_error + 'a"

definition bindE :: "'a result \<Rightarrow> ('a \<Rightarrow> 'b result) \<Rightarrow> 'b result" where
  "bindE m f = (case m of Inl e \<Rightarrow> Inl e | Inr x \<Rightarrow> f x)"

fun is_dict :: "pyval \<Rightarrow> bool" where
  "is_dict (PDict d) = True"
| "is_dict v = False"

text \<open>Truth value of an object, as \<^verbatim>\<open>if x:\<close> and \<^verbatim>\<open>not x\<close> test it.\<close>

fun truthy :: "pyval \<Rightarrow> bool" where
  "truthy PNone = False"
| "truthy (PBool b) = b"
| "truthy (PInt i) = (i \<noteq> 0)"
| "truthy (PFloat r) = (r \<noteq> 0)"
| "truthy (PStr s) = (s \<noteq> [])"
| "truthy (PBytes s) = (s \<noteq> [])"
| "truthy (PList xs) = (xs \<noteq> [])"
| "truthy (PDict d) = (d \<noteq> [])"

text \<open>The number a numeric object denotes; \<open>None\<close> for a non-numeric object.\<close>

fun num_val :: "pyval \<Rightarrow> real option" where
  "num_val (PBool b) = Some (if b then 1 else 0)"
| "num_val (PInt i) = Some (real_of_int i)"
| "num_val (PFloat r) = Some r"
| "num_val v = None"

text \<open>
  \<^verbatim>\<open>a == b\<close>: numbers compare by value across \<^verbatim>\<open>bool\<close>, \<^verbatim>\<open>int\<close> and
  \<^verbatim>\<open>float\<close>; lists element by element; dictionaries key by key, whatever the order.
\<close>

fun py_eq :: "pyval \<Rightarrow> pyval \<Rightarrow> bool" where
  "py_eq PNone b = (b = PNone)"
| "py_eq (PStr s) b = (b = PStr s)"
| "py_eq (PBytes s) b = (b = PBytes s)"
| "py_eq (PList xs) b = (case b of PList ys \<Rightarrow> list_all2 py_eq xs ys | _ \<Rightarrow> False)"
| "py_eq (PDict d) b =
     (case b of
        PDict e \<Rightarrow>
          length d = length e \<and>
          list_all (\<lambda>kv. case map_of e (fst kv) of None \<Rightarrow> False | Some w \<Rightarrow> py_eq (snd kv) w) d
      | _ \<Rightarrow> False)"
| "py_eq a b =
     (case num_val b of None \<Rightarrow> False | Some y \<Rightarrow> num_val a = Some y)"

text \<open>\<^verbatim>\<open>sub in s\<close> for two strings: \<open>sub\<close> occurs in \<open>s\<close> as a contiguous block.\<close>

fun is_prefix :: "string \<Rightarrow> string \<Rightarrow> bool" where
  "is_prefix [] s = True"
| "is_prefix (c # cs) [] = False"
| "is_prefix (c # cs) (d # ds) = (c = d \<and> is_prefix cs ds)"

fun substring :: "string \<Rightarrow> string \<Rightarrow> bool" where
  "substring sub [] = (sub = [])"
| "substring sub (c # cs) = (is_prefix sub (c # cs) \<or> substring sub cs)"

text \<open>
  \<^verbatim>\<open>item in container\<close>. A dictionary tests its keys (an unhashable item raises
  TypeError), a list compares with \<^verbatim>\<open>==\<close>, a string accepts only a string and
  tests for a substring, a bytes object accepts a byte value or a bytes object;
  \<^verbatim>\<open>None\<close> and numbers are not containers.
\<close>

fun py_in :: "pyval \<Rightarrow> pyval \<Rightarrow> bool result" where
  "py_in item (PDict d) =
     (case item of
        PList xs \<Rightarrow> Inl TypeError
      | PDict e \<Rightarrow> Inl TypeError
      | PStr k \<Rightarrow> Inr (k \<in> set (map fst d))
      | _ \<Rightarrow> Inr False)"
| "py_in item (PList xs) = Inr (list_ex (py_eq item) xs)"
| "py_in item (PStr s) =
     (case item of PStr sub \<Rightarrow> Inr (substring sub s) | _ \<Rightarrow> Inl TypeError)"
| "py_in item (PBytes s) =
     (case item of
        PBytes sub \<Rightarrow> Inr (substring sub s)
      | PInt i \<Rightarrow> if 0 \<le> i \<and> i < 256 then Inr (i \<in> set (map of_char s)) else Inl ValueError
      | PBool b \<Rightarrow> Inr ((if b then 1 else 0 :: int) \<in> set (map of_char s))
      | _ \<Rightarrow> Inl TypeError)"
| "py_in item container = Inl TypeError"

text \<open>\<^verbatim>\<open>obj[key]\<close> with a string key: only a dictionary can be subscripted by a string.\<close>

fun getitem :: "pyval \<Rightarrow> string \<Rightarrow> pyval result" where
  "getitem (PDict d) k = (case map_of d k of None \<Rightarrow> Inl KeyError | Some v \<Rightarrow> Inr v)"
| "getitem obj k = Inl TypeError"

text \<open>\<^verbatim>\<open>obj[k1][k2]...\<close>: reading along a path of string keys.\<close>

fun get_path :: "pyval \<Rightarrow> string list \<Rightarrow> pyval result" where
  "get_path obj [] = Inr obj"
| "get_path obj (k # ks) = bindE (getitem obj k) (\<lambda>inner. get_path inner ks)"

text \<open>
  \<^verbatim>\<open>obj[key] = v\<close> with a string key, returning the updated object: a present key
  keeps its place, a new key is appended.
\<close>

fun setitem :: "pyval \<Rightarrow> string \<Rightarrow> pyval \<Rightarrow> pyval result" where
  "setitem (PDict d) k v = Inr (PDict (AList.update k v d))"
| "setitem obj k v = Inl TypeError"

text \<open>\<^verbatim>\<open>for x in obj\<close>: the sequence of values the loop visits.\<close>

fun py_iter :: "pyval \<Rightarrow> pyval list result" where
  "py_iter (PList xs) = Inr xs"
| "py_iter (PDict d) = Inr (map (\<lambda>kv. PStr (fst kv)) d)"
| "py_iter (PStr s) = Inr (map (\<lambda>c. PStr [c]) s)"
| "py_iter (PBytes s) = Inr (map (\<lambda>c. PInt (of_char c)) s)"
| "py_iter obj = Inl TypeError"

text \<open>
  \<^verbatim>\<open>obj[i]\<close> with a literal index \<open>i \<ge> 0\<close>. A dictionary with string keys has no
  integer key.
\<close>

fun getindex :: "pyval \<Rightarrow> nat \<Rightarrow> pyval result" where
  "getindex (PList xs) i = (if i < length xs then Inr (xs ! i) else Inl IndexError)"
| "getindex (PStr s) i = (if i < length s then Inr (PStr [s ! i]) else Inl IndexError)"
| "getindex (PBytes s) i = (if i < length s then Inr (PInt (of_char (s ! i))) else Inl IndexError)"
| "getindex (PDict d) i = Inl KeyError"
| "getindex obj i = Inl TypeError"

text \<open>
  \<^verbatim>\<open>s.replace(old, new)\<close> on strings: every occurrence of \<open>old\<close>, found from left
  to right without overlap, becomes \<open>new\<close>; an empty \<open>old\<close> matches before every
  character and at the end. \<open>skip\<close> counts the characters of an occurrence still to
  pass over.
\<close>

fun replace_from :: "string \<Rightarrow> string \<Rightarrow> string \<Rightarrow> nat \<Rightarrow> string" where
  "replace_from old new [] skip = []"
| "replace_from old new (c # cs) skip =
     (if skip > 0 then replace_from old new cs (skip - 1)
      else if is_prefix old (c # cs) then new @ replace_from old new cs (length old - 1)
      else c # replace_from old new cs 0)"

definition str_replace :: "string \<Rightarrow> string \<Rightarrow> string \<Rightarrow> string" where
  "str_replace s old new =
     (if old = [] then new @ concat (map (\<lambda>c. c # new) s) else replace_from old new s 0)"

text \<open>
  The call \<^verbatim>\<open>receiver.replace(old, arg)\<close> with a literal string \<open>old\<close>: the
  attribute is looked up first (only strings and bytes have it), then the argument is
  evaluated, then the call checks the argument's type.
\<close>

definition replace_method :: "pyval \<Rightarrow> string \<Rightarrow> pyval result \<Rightarrow> pyval result" where
  "replace_method receiver old arg =
     (case receiver of
        PStr s \<Rightarrow>
          bindE arg (\<lambda>new. case new of PStr n \<Rightarrow> Inr (PStr (str_replace s old n))
                                       | _ \<Rightarrow> Inl TypeError)
      | PBytes b \<Rightarrow> bindE arg (\<lambda>new. Inl TypeError)
      | _ \<Rightarrow> Inl AttributeError)"

text \<open>\<^verbatim>\<open>a and b\<close> on conditions that may raise: \<open>b\<close> counts only when \<open>a\<close> holds.\<close>

definition andE :: "bool result \<Rightarrow> bool result \<Rightarrow> bool result" where
  "andE a b = bindE a (\<lambda>x. if x then b else Inr False)"

section \<open>Packet normalisation (\<^verbatim>\<open>PacketFilter\<close>)\<close>

text \<open>
  \<^verbatim>\<open>strip_raw\<close> returns anything that is not a dictionary as it is, deletes the key
  \<^verbatim>\<open>raw\<close> and then replaces every remaining value by its stripped form.
\<close>

fun strip_raw :: "pyval \<Rightarrow> pyval" where
  "strip_raw (PDict data) =
     PDict (map (\<lambda>(k, v). (k, strip_raw v)) (filter (\<lambda>(k, v). k \<noteq> ''raw'') data))"
| "strip_raw data = data"

text \<open>
  \<^verbatim>\<open>normalize\<close>: a dictionary is used as it is; anything else goes through
  \<^verbatim>\<open>json.loads\<close>, and whatever exception that raises is caught and the value wrapped
  as the text of a packet. \<^verbatim>\<open>json.loads\<close> is a library function: it is the
  parameter \<open>json_loads\<close>, and every statement below holds for any behaviour of it.
\<close>

definition normalize_packet :: "(pyval \<Rightarrow> pyval result) \<Rightarrow> pyval \<Rightarrow> pyval" where
  "normalize_packet json_loads dict_obj =
     strip_raw
       (if is_dict dict_obj then dict_obj
        else (case json_loads dict_obj of
                Inr parsed \<Rightarrow> parsed
              | Inl e \<Rightarrow> PDict [(''decoded'', PDict [(''text'', dict_obj)])]))"

text \<open>No key \<^verbatim>\<open>raw\<close> anywhere in a value, dictionaries inside lists included.\<close>

fun no_raw_key :: "pyval \<Rightarrow> bool" where
  "no_raw_key (PDict d) = list_all (\<lambda>(k, v). k \<noteq> ''raw'' \<and> no_raw_key v) d"
| "no_raw_key (PList xs) = list_all no_raw_key xs"
| "no_raw_key v = True"

text \<open>
  No key \<^verbatim>\<open>raw\<close> in the value or in a dictionary reached from it through dictionary
  values only.
\<close>

fun no_raw_in_mappings :: "pyval \<Rightarrow> bool" where
  "no_raw_in_mappings (PDict d) =
     list_all (\<lambda>(k, v). k \<noteq> ''raw'' \<and> no_raw_in_mappings v) d"
| "no_raw_in_mappings v = True"

text \<open>
  Lines 62 to 75. A payload of type \<^verbatim>\<open>bytes\<close> is replaced by its base64 text;
  \<^verbatim>\<open>base64.b64encode\<close> is the parameter \<open>b64encode\<close>.
\<close>

definition PacketFilter_do_action :: "(pyval \<Rightarrow> pyval result) \<Rightarrow> (string \<Rightarrow> string) \<Rightarrow> pyval \<Rightarrow> pyval result" where
  "PacketFilter_do_action json_loads b64encode packet0 =
     (let packet = normalize_packet json_loads packet0 in
      bindE (andE (py_in (PStr ''decoded'') packet)
                  (bindE (getitem packet ''decoded'') (py_in (PStr ''payload'')))) (\<lambda>has_payload.
      if has_payload
      then bindE (getitem packet ''decoded'') (\<lambda>decoded.
           bindE (getitem decoded ''payload'') (\<lambda>payload.
           case payload of
             PBytes b \<Rightarrow>
               bindE (setitem decoded ''payload'' (PStr (b64encode b))) (\<lambda>decoded'.
               setitem packet ''decoded'' decoded')
           | _ \<Rightarrow> Inr packet))
      else Inr packet))"

section \<open>Debug stage (\<^verbatim>\<open>DebugFilter\<close>)\<close>

definition DebugFilter_do_action :: "pyval \<Rightarrow> pyval result" where
  "DebugFilter_do_action packet = Inr packet"

section \<open>Stage configuration\<close>

text \<open>
  The configuration of a stage is the dictionary \<^verbatim>\<open>self.config\<close> that
  \<^verbatim>\<open>configure\<close> stored. \<open>has_key\<close> is \<^verbatim>\<open>key in self.config\<close> and
  \<open>cfg\<close> is \<^verbatim>\<open>self.config[key]\<close>.
\<close>

type_synonym config = "(string \<times> pyval) list"

definition has_key :: "config \<Rightarrow> string \<Rightarrow> bool" where
  "has_key config k = (k \<in> set (map fst config))"

definition cfg :: "config \<Rightarrow> string \<Rightarrow> pyval result" where
  "cfg config k = getitem (PDict config) k"

text \<open>
  \<^verbatim>\<open>name in registry\<close> and \<^verbatim>\<open>registry[name]\<close> for a registry keyed by strings
  (the devices, the broker connections), asked with a value of the configuration: an
  unhashable value raises TypeError, a value that is not a string is no key.
\<close>

fun lookup_named :: "(string \<times> 'a) list \<Rightarrow> pyval \<Rightarrow> 'a option result" where
  "lookup_named registry (PStr name) = Inr (map_of registry name)"
| "lookup_named registry (PList xs) = Inl TypeError"
| "lookup_named registry (PDict d) = Inl TypeError"
| "lookup_named registry v = Inr None"

section \<open>Field and content filter (\<^verbatim>\<open>MessageFilter\<close>)\<close>

text \<open>
  The loop over a list of patterns: \<^verbatim>\<open>re.search\<close> is called only while nothing has
  matched. \<^verbatim>\<open>re.search\<close> is the parameter \<open>re_search\<close>, given the pattern and the
  text; it answers whether there is a match, or raises.
\<close>

fun search_patterns :: "(pyval \<Rightarrow> pyval \<Rightarrow> bool result) \<Rightarrow> pyval list \<Rightarrow> pyval \<Rightarrow> bool \<Rightarrow> bool result" where
  "search_patterns re_search [] text matches = Inr matches"
| "search_patterns re_search (regex # rest) text matches =
     (if \<not> matches
      then bindE (re_search regex text) (\<lambda>found.
             search_patterns re_search rest text (if found then True else matches))
      else search_patterns re_search rest text matches)"

text \<open>
  Lines 120 to 142: the rules of the \<^verbatim>\<open>message\<close> entry on a text.
  The result is whether the packet is dropped.
\<close>

definition message_rules :: "(pyval \<Rightarrow> pyval \<Rightarrow> bool result) \<Rightarrow> pyval \<Rightarrow> pyval \<Rightarrow> bool result" where
  "message_rules re_search message text =
     bindE (py_in (PStr ''allow'') message) (\<lambda>has_allow.
     bindE (if has_allow
            then bindE (getitem message ''allow'') (\<lambda>allow.
                 bindE (py_iter allow) (\<lambda>regexes.
                 bindE (search_patterns re_search regexes text False) (\<lambda>matches.
                 Inr (\<not> matches))))
            else Inr False) (\<lambda>dropped.
     if dropped then Inr True
     else
       bindE (py_in (PStr ''disallow'') message) (\<lambda>has_disallow.
       if has_disallow
       then bindE (getitem message ''disallow'') (\<lambda>disallow.
            bindE (py_iter disallow) (\<lambda>regexes.
            search_patterns re_search regexes text False))
       else Inr False)))"

text \<open>Lines 154 to 158 and 164 to 168: the two tests on one attribute.\<close>

definition allow_violated :: "pyval \<Rightarrow> pyval \<Rightarrow> bool result" where
  "allow_violated filter_val v =
     bindE (py_in (PStr ''allow'') filter_val) (\<lambda>present.
     if \<not> present then Inr False
     else bindE (getitem filter_val ''allow'') (\<lambda>allow.
          if \<not> truthy allow then Inr False
          else bindE (py_in v allow) (\<lambda>member. Inr (\<not> member))))"

definition disallow_violated :: "pyval \<Rightarrow> pyval \<Rightarrow> bool result" where
  "disallow_violated filter_val v =
     bindE (py_in (PStr ''disallow'') filter_val) (\<lambda>present.
     if \<not> present then Inr False
     else bindE (getitem filter_val ''disallow'') (\<lambda>disallow.
          if \<not> truthy disallow then Inr False
          else py_in v disallow))"

text \<open>
  Lines 150 to 172: the loop over the attributes, in the order of the dictionary
  \<^verbatim>\<open>filters\<close>. The result is whether the packet is dropped.
\<close>

fun attribute_rules :: "config \<Rightarrow> (string \<times> pyval) list \<Rightarrow> bool result" where
  "attribute_rules config [] = Inr False"
| "attribute_rules config ((filter_key, v) # rest) =
     (if has_key config filter_key
      then bindE (cfg config filter_key) (\<lambda>filter_val.
           bindE (allow_violated filter_val v) (\<lambda>not_allowed.
           if not_allowed then Inr True
           else bindE (disallow_violated filter_val v) (\<lambda>disallowed.
                if disallowed then Inr True else attribute_rules config rest)))
      else attribute_rules config rest)"

definition MessageFilter_do_action :: "(pyval \<Rightarrow> pyval \<Rightarrow> bool result) \<Rightarrow> config \<Rightarrow> pyval \<Rightarrow> pyval result" where
  "MessageFilter_do_action re_search config packet =
     (if \<not> truthy packet then Inr packet
      else
        bindE (getitem packet ''decoded'') (\<lambda>decoded.
        bindE (py_in (PStr ''text'') decoded) (\<lambda>has_text.
        bindE (if has_text then getitem decoded ''text'' else Inr PNone) (\<lambda>text.
        bindE (if truthy text \<and> has_key config ''message''
               then bindE (cfg config ''message'') (\<lambda>message. message_rules re_search message text)
               else Inr False) (\<lambda>dropped.
        if dropped then Inr PNone
        else
          bindE (getitem decoded ''portnum'') (\<lambda>app.
          bindE (getitem packet ''fromId'') (\<lambda>from_id.
          bindE (getitem packet ''toId'') (\<lambda>to_id.
          bindE (attribute_rules config [(''app'', app), (''from'', from_id), (''to'', to_id)])
            (\<lambda>dropped. if dropped then Inr PNone else Inr packet)))))))))"

section \<open>Geofence filter (\<^verbatim>\<open>LocationFilter\<close>)\<close>

text \<open>
  A device of the registry is modelled by what its \<^verbatim>\<open>getMyNodeInfo()\<close> returns.
  \<^verbatim>\<open>haversine\<close> is a library function: it is the parameter \<open>haversine\<close>, which
  gives the distance in kilometres of two pairs of coordinates, or raises.
\<close>

type_synonym devices = "(string \<times> pyval) list"

type_synonym position = "pyval \<times> pyval"

text \<open>Lines 188 to 193: the position of the configured device, when it is registered.\<close>

definition device_position :: "config \<Rightarrow> devices \<Rightarrow> position option result" where
  "device_position config devs =
     (if has_key config ''device''
      then bindE (cfg config ''device'') (\<lambda>name.
           bindE (lookup_named devs name) (\<lambda>device.
           case device of
             None \<Rightarrow> Inr None
           | Some nodeInfo \<Rightarrow>
               bindE (getitem nodeInfo ''position'') (\<lambda>p.
               bindE (getitem p ''latitude'') (\<lambda>lat.
               bindE (getitem nodeInfo ''position'') (\<lambda>p.
               bindE (getitem p ''longitude'') (\<lambda>lon.
               Inr (Some (lat, lon))))))))
      else Inr None)"

text \<open>Lines 195 to 204: the position the packet carries.\<close>

definition source_position :: "pyval \<Rightarrow> position option result" where
  "source_position packet =
     bindE (py_in (PStr ''decoded'') packet) (\<lambda>has_decoded.
     if \<not> has_decoded then Inr None
     else
       bindE (getitem packet ''decoded'') (\<lambda>decoded.
       bindE (py_in (PStr ''position'') decoded) (\<lambda>has_position.
       if \<not> has_position then Inr None
       else
         bindE (getitem decoded ''position'') (\<lambda>p.
         bindE (py_in (PStr ''latitude'') p) (\<lambda>has_latitude.
         if \<not> has_latitude then Inr None
         else
           bindE (py_in (PStr ''longitude'') p) (\<lambda>has_longitude.
           if \<not> has_longitude then Inr None
           else
             bindE (getitem p ''latitude'') (\<lambda>lat.
             bindE (getitem p ''longitude'') (\<lambda>lon.
             Inr (Some (lat, lon))))))))))"

text \<open>Lines 206 to 210: configured reference coordinates replace the device's.\<close>

definition reference_position :: "config \<Rightarrow> position option \<Rightarrow> position option result" where
  "reference_position config current_local_position =
     (if has_key config ''compare_latitude'' \<and> has_key config ''compare_longitude''
      then bindE (cfg config ''compare_latitude'') (\<lambda>lat.
           bindE (cfg config ''compare_longitude'') (\<lambda>lon.
           Inr (Some (lat, lon))))
      else Inr current_local_position)"

text \<open>
  Lines 215 to 232: the comparison mode, and the comparison of a distance with
  \<^verbatim>\<open>max_distance_km\<close>.
  An ordering comparison with a number raises TypeError on anything that is not a number.
  The result is whether the packet is dropped.
\<close>

definition comparison_mode :: "config \<Rightarrow> pyval result" where
  "comparison_mode config =
     (if has_key config ''comparison'' then cfg config ''comparison'' else Inr (PStr ''within''))"

definition beyond_threshold :: "config \<Rightarrow> real \<Rightarrow> bool result" where
  "beyond_threshold config distance_km =
     bindE (comparison_mode config) (\<lambda>comparison.
     if has_key config ''max_distance_km''
     then bindE (cfg config ''max_distance_km'') (\<lambda>max_distance_km.
          case num_val max_distance_km of
            None \<Rightarrow> Inl TypeError
          | Some acceptable_distance \<Rightarrow>
              if acceptable_distance > 0
              then (if py_eq comparison (PStr ''within'') \<and> distance_km > acceptable_distance
                    then Inr True
                    else if py_eq comparison (PStr ''outside'') \<and> distance_km < acceptable_distance
                    then Inr True
                    else Inr False)
              else Inr False)
     else Inr False)"

text \<open>
  Lines 188 to 232: everything before the masking. The result is whether the packet is
  dropped; the distance is computed, and compared, only when both positions are there.
\<close>

definition distance_check :: "(position \<Rightarrow> position \<Rightarrow> real result) \<Rightarrow> config \<Rightarrow> devices \<Rightarrow> pyval \<Rightarrow> bool result" where
  "distance_check haversine config devs packet =
     bindE (device_position config devs) (\<lambda>device_pos.
     bindE (source_position packet) (\<lambda>message_source_position.
     bindE (reference_position config device_pos) (\<lambda>current_local_position.
     case (message_source_position, current_local_position) of
       (Some src, Some loc) \<Rightarrow>
         bindE (haversine src loc) (\<lambda>distance_km. beyond_threshold config distance_km)
     | _ \<Rightarrow> Inr False)))"

text \<open>
  Lines 235 and 237: \<^verbatim>\<open>packet["decoded"]["position"][field] = v\<close>. The nested
  dictionaries are updated in place; the model rebuilds the packet around the new value.
\<close>

definition set_position_field :: "pyval \<Rightarrow> string \<Rightarrow> pyval \<Rightarrow> pyval result" where
  "set_position_field packet field v =
     bindE (getitem packet ''decoded'') (\<lambda>decoded.
     bindE (getitem decoded ''position'') (\<lambda>p.
     bindE (setitem p field v) (\<lambda>p'.
     bindE (setitem decoded ''position'' p') (\<lambda>decoded'.
     setitem packet ''decoded'' decoded'))))"

text \<open>Lines 234 to 239: the masking of the reported position.\<close>

definition mask_position :: "config \<Rightarrow> pyval \<Rightarrow> pyval result" where
  "mask_position config packet =
     bindE (if has_key config ''latitude''
            then bindE (cfg config ''latitude'') (\<lambda>lat. set_position_field packet ''latitude'' lat)
            else Inr packet) (\<lambda>packet1.
     if has_key config ''longitude''
     then bindE (cfg config ''longitude'') (\<lambda>lon. set_position_field packet1 ''longitude'' lon)
     else Inr packet1)"

text \<open>
  What lines 234 to 237 make of the dictionary \<^verbatim>\<open>decoded.position\<close>: the configured
  latitude is stored first, then the configured longitude.
\<close>

definition mask_fields :: "config \<Rightarrow> (string \<times> pyval) list \<Rightarrow> (string \<times> pyval) list" where
  "mask_fields config pos =
     (case map_of config ''longitude'' of None \<Rightarrow> id | Some lon \<Rightarrow> AList.update ''longitude'' lon)
       ((case map_of config ''latitude'' of None \<Rightarrow> id | Some lat \<Rightarrow> AList.update ''latitude'' lat)
          pos)"

definition LocationFilter_do_action :: "(position \<Rightarrow> position \<Rightarrow> real result) \<Rightarrow> config \<Rightarrow> devices \<Rightarrow> pyval \<Rightarrow> pyval result" where
  "LocationFilter_do_action haversine config devs packet =
     bindE (distance_check haversine config devs packet) (\<lambda>dropped.
     if dropped then Inr PNone else mask_position config packet)"

section \<open>Envelope crypto stages (\<^verbatim>\<open>EncryptFilter\<close>, \<^verbatim>\<open>DecryptFilter\<close>)\<close>

text \<open>
  The key files, the JWE library and the JSON library are outside the repository. They
  are the fields of a record, and each may raise:
  \<^item> \<open>load_public_key\<close>: lines 600 to 610, from the configured path to the public key
    the envelope is addressed to;
  \<^item> \<open>dumps\<close>: \<^verbatim>\<open>json.dumps\<close>;
  \<^item> \<open>jwe_encrypt\<close>: the construction of the \<^verbatim>\<open>JWE\<close> object for a text and a key;
  \<^item> \<open>jwe_serialize\<close>: its \<^verbatim>\<open>serialize()\<close>;
  \<^item> \<open>load_private_key\<close>: lines 638 and 639;
  \<^item> \<open>jwe_decrypt\<close>: \<^verbatim>\<open>deserialize\<close> with a key, and the payload it recovers;
  \<^item> \<open>loads\<close>: \<^verbatim>\<open>json.loads\<close>.
\<close>

record ('pk, 'sk, 'tok) crypto =
  load_public_key :: "pyval \<Rightarrow> 'pk result"
  dumps :: "pyval \<Rightarrow> string result"
  jwe_encrypt :: "'pk \<Rightarrow> string \<Rightarrow> 'tok result"
  jwe_serialize :: "'tok \<Rightarrow> string result"
  load_private_key :: "pyval \<Rightarrow> 'sk result"
  jwe_decrypt :: "'sk \<Rightarrow> string \<Rightarrow> string result"
  loads :: "pyval \<Rightarrow> pyval result"

text \<open>
  The two stages take \<^verbatim>\<open>self.config\<close> as the value \<^verbatim>\<open>configure\<close> stored,
  whatever it is: a stage configured with no options holds \<^verbatim>\<open>None\<close>, which
  \<^verbatim>\<open>configure\<close> allows for (line 25), and there the tests of lines 594 and 629
  raise TypeError.

  Line 618 formats \<^verbatim>\<open>packet['id']\<close> into the debug message before the envelope is
  serialised; the subscript is evaluated whatever the log level. Line 645 does the same
  with the decrypted packet.
\<close>

definition EncryptFilter_do_action :: "('pk, 'sk, 'tok) crypto \<Rightarrow> pyval \<Rightarrow> pyval \<Rightarrow> pyval result" where
  "EncryptFilter_do_action lib config packet =
     bindE (py_in (PStr ''key'') config) (\<lambda>configured.
     if \<not> configured then Inr PNone
     else
       bindE (getitem config ''key'') (\<lambda>path.
       bindE (load_public_key lib path) (\<lambda>public_key.
       bindE (dumps lib packet) (\<lambda>message.
       bindE (jwe_encrypt lib public_key message) (\<lambda>jwetoken.
       bindE (getitem packet ''id'') (\<lambda>packet_id.
       bindE (jwe_serialize lib jwetoken) (\<lambda>envelope.
       Inr (PStr envelope))))))))"

definition DecryptFilter_do_action :: "('pk, 'sk, 'tok) crypto \<Rightarrow> pyval \<Rightarrow> pyval \<Rightarrow> pyval result" where
  "DecryptFilter_do_action lib config packet =
     bindE (py_in (PStr ''key'') config) (\<lambda>configured.
     if \<not> configured then Inr packet
     else
       case packet of
         PStr envelope \<Rightarrow>
           bindE (getitem config ''key'') (\<lambda>path.
           bindE (load_private_key lib path) (\<lambda>private_key.
           bindE (jwe_decrypt lib private_key envelope) (\<lambda>payload.
           bindE (loads lib (PBytes payload)) (\<lambda>decrypted.
           bindE (getitem decrypted ''id'') (\<lambda>packet_id.
           Inr decrypted)))))
       | _ \<Rightarrow> Inr packet)"

text \<open>
  A valid key pair: whatever text is encrypted to the public key, the envelope is
  produced and the private key opens it to the same text.
\<close>

definition valid_key_pair :: "('pk, 'sk, 'tok) crypto \<Rightarrow> 'pk \<Rightarrow> 'sk \<Rightarrow> bool" where
  "valid_key_pair lib public_key private_key =
     (\<forall>message. \<exists>jwetoken envelope.
        jwe_encrypt lib public_key message = Inr jwetoken
        \<and> jwe_serialize lib jwetoken = Inr envelope
        \<and> jwe_decrypt lib private_key envelope = Inr message)"

text \<open>
  A stand-in for the libraries, for concrete runs: the key of every path is the unit
  value, an envelope is the text itself, the one packet that serialises is \<open>known\<close>,
  to the text \<open>serialized\<close>, and that text parses back to it.
\<close>

definition toy_crypto :: "pyval \<Rightarrow> string \<Rightarrow> (unit, unit, string) crypto" where
  "toy_crypto known serialized =
     \<lparr> load_public_key = (\<lambda>path. Inr ()),
       dumps = (\<lambda>p. if p = known then Inr serialized else Inl TypeError),
       jwe_encrypt = (\<lambda>key message. Inr message),
       jwe_serialize = (\<lambda>jwetoken. Inr jwetoken),
       load_private_key = (\<lambda>path. Inr ()),
       jwe_decrypt = (\<lambda>key envelope. Inr envelope),
       loads = (\<lambda>text. if text = PBytes serialized then Inr known else Inl ValueError) \<rparr>"

section \<open>Broker egress (\<^verbatim>\<open>MQTTPlugin\<close>, \<^verbatim>\<open>OwntracksPlugin\<close>)\<close>

text \<open>
  A broker connection of the registry \<^verbatim>\<open>mqtt_servers\<close>: what its
  \<^verbatim>\<open>is_connected()\<close> answers, and its \<^verbatim>\<open>publish\<close> of a message on a topic
  (with the wait for the acknowledgement where the plugin waits), which may raise.
\<close>

record mqtt_server =
  is_connected :: bool
  publish :: "pyval \<Rightarrow> pyval \<Rightarrow> unit result"

type_synonym mqtt_servers = "(string \<times> mqtt_server) list"

text \<open>Line 320 is a bare \<^verbatim>\<open>return\<close>: the stage returns \<^verbatim>\<open>None\<close>.\<close>

definition MQTTPlugin_do_action :: "(pyval \<Rightarrow> string result) \<Rightarrow> config \<Rightarrow> mqtt_servers \<Rightarrow> pyval \<Rightarrow> pyval result" where
  "MQTTPlugin_do_action json_dumps config servers packet =
     (if \<not> has_key config ''name'' then Inr packet
      else if \<not> has_key config ''topic'' then Inr packet
      else
        bindE (cfg config ''name'') (\<lambda>name.
        bindE (lookup_named servers name) (\<lambda>established.
        case established of
          None \<Rightarrow> Inr packet
        | Some mqtt_server \<Rightarrow>
            if \<not> is_connected mqtt_server then Inr PNone
            else
              bindE (json_dumps packet) (\<lambda>packet_message.
              bindE (if has_key config ''message''
                     then bindE (cfg config ''message'') (\<lambda>template.
                          replace_method template ''{MSG}''
                            (bindE (getitem packet ''decoded'') (\<lambda>decoded. getitem decoded ''text'')))
                     else Inr (PStr packet_message)) (\<lambda>message.
              bindE (cfg config ''topic'') (\<lambda>topic.
              bindE (publish mqtt_server topic message) (\<lambda>sent.
              Inr packet)))))))"

text \<open>\<^verbatim>\<open>"literal" + v\<close>: only a string can be appended to a string.\<close>

definition str_concat :: "string \<Rightarrow> pyval \<Rightarrow> pyval result" where
  "str_concat prefix v = (case v of PStr s \<Rightarrow> Inr (PStr (prefix @ s)) | _ \<Rightarrow> Inl TypeError)"

text \<open>
  \<^verbatim>\<open>message[key] = obj[field]\<close> on the local dictionary \<^verbatim>\<open>message\<close>, and the same
  under the condition \<^verbatim>\<open>field in obj\<close>.
\<close>

definition copy_field :: "config \<Rightarrow> string \<Rightarrow> pyval \<Rightarrow> string \<Rightarrow> config result" where
  "copy_field message key obj field =
     bindE (getitem obj field) (\<lambda>v. Inr (AList.update key v message))"

definition copy_field_if_present :: "config \<Rightarrow> string \<Rightarrow> pyval \<Rightarrow> string \<Rightarrow> config result" where
  "copy_field_if_present message key obj field =
     bindE (py_in (PStr field) obj) (\<lambda>present.
     if present then copy_field message key obj field else Inr message)"

text \<open>Lines 366 to 371 and 380 to 386: the two tests for a location packet.\<close>

definition from_radio :: "pyval \<Rightarrow> bool result" where
  "from_radio packet =
     andE (py_in (PStr ''decoded'') packet)
    (andE (bindE (getitem packet ''decoded'') (py_in (PStr ''position'')))
    (andE (bindE (get_path packet [''decoded'', ''position'']) (py_in (PStr ''latitude'')))
          (bindE (get_path packet [''decoded'', ''position'', ''latitude''])
             (\<lambda>lat. Inr (\<not> py_eq lat (PInt 0))))))"

definition from_mqtt :: "pyval \<Rightarrow> bool result" where
  "from_mqtt packet =
     andE (py_in (PStr ''type'') packet)
    (andE (bindE (getitem packet ''type'') (\<lambda>t. Inr (py_eq t (PStr ''position''))))
    (andE (py_in (PStr ''payload'') packet)
    (andE (bindE (getitem packet ''payload'') (py_in (PStr ''latitude_i'')))
          (bindE (get_path packet [''payload'', ''latitude_i''])
             (\<lambda>lat. Inr (\<not> py_eq lat (PInt 0)))))))"

text \<open>
  Lines 372 to 377 and 387 to 395: the fields of the location message. The division
  \<^verbatim>\<open>v / 10000000\<close> of lines 387 and 388 is floating-point arithmetic of the
  interpreter: it is the parameter \<open>true_div\<close>, which gives the rounded quotient, or
  raises (TypeError on what is not a number, OverflowError on an integer too large for
  a float).
\<close>

definition radio_location :: "config \<Rightarrow> pyval \<Rightarrow> config result" where
  "radio_location message packet =
     bindE (get_path packet [''decoded'', ''position'']) (\<lambda>p.
     bindE (copy_field message ''lat'' p ''latitude'') (\<lambda>m1.
     bindE (copy_field m1 ''lon'' p ''longitude'') (\<lambda>m2.
     bindE (copy_field m2 ''tst'' p ''time'') (\<lambda>m3.
     bindE (copy_field m3 ''created_at'' packet ''rxTime'') (\<lambda>m4.
     copy_field_if_present m4 ''alt'' p ''altitude'')))))"

definition mqtt_location :: "(pyval \<Rightarrow> pyval result) \<Rightarrow> config \<Rightarrow> pyval \<Rightarrow> config result" where
  "mqtt_location true_div message packet =
     bindE (getitem packet ''payload'') (\<lambda>payload.
     bindE (bindE (getitem payload ''latitude_i'') true_div) (\<lambda>lat.
     bindE (bindE (getitem payload ''longitude_i'') true_div) (\<lambda>lon.
     bindE (copy_field (AList.update ''lon'' lon (AList.update ''lat'' lat message))
              ''tst'' packet ''timestamp'') (\<lambda>m3.
     bindE (py_in (PStr ''time'') payload) (\<lambda>has_time.
     bindE (if has_time then copy_field m3 ''created_at'' payload ''time''
            else copy_field m3 ''created_at'' packet ''timestamp'') (\<lambda>m4.
     copy_field_if_present m4 ''alt'' payload ''altitude''))))))"

text \<open>
  \<^verbatim>\<open>str\<close> is the parameter \<open>py_str\<close>. Line 408 is a bare \<^verbatim>\<open>return\<close>: the stage
  returns \<^verbatim>\<open>None\<close>.
\<close>

definition OwntracksPlugin_do_action :: "(pyval \<Rightarrow> string) \<Rightarrow> (pyval \<Rightarrow> pyval result) \<Rightarrow> (pyval \<Rightarrow> string result) \<Rightarrow> config \<Rightarrow> mqtt_servers \<Rightarrow> pyval \<Rightarrow> pyval result" where
  "OwntracksPlugin_do_action py_str true_div json_dumps config servers packet =
     (if \<not> has_key config ''tid_table'' then Inr packet
      else if \<not> has_key config ''server_name'' then Inr packet
      else
        bindE (cfg config ''tid_table'') (\<lambda>tid_table.
        bindE (py_in (PStr ''from'') packet) (\<lambda>has_from.
        if \<not> has_from then Inr packet
        else
          bindE (getitem packet ''from'') (\<lambda>sender.
          bindE (py_in (PStr (py_str sender)) tid_table) (\<lambda>known.
          if \<not> known then Inr packet
          else
            bindE (getitem tid_table (py_str sender)) (\<lambda>entry.
            bindE (getindex entry 1) (\<lambda>tid.
            let message = [(''_type'', PStr ''location''), (''bs'', PInt 0), (''tid'', tid)] in
            bindE (from_radio packet) (\<lambda>radio.
            bindE (if radio then Inr False else from_mqtt packet) (\<lambda>mqtt.
            if \<not> radio \<and> \<not> mqtt then Inr packet
            else
              bindE (if radio then radio_location message packet
                     else mqtt_location true_div message packet) (\<lambda>message.
              bindE (cfg config ''server_name'') (\<lambda>server_name.
              bindE (lookup_named servers server_name) (\<lambda>established.
              case established of
                None \<Rightarrow> Inr packet
              | Some mqtt_server \<Rightarrow>
                  if \<not> is_connected mqtt_server then Inr PNone
                  else
                    bindE (getitem tid_table (py_str sender)) (\<lambda>entry.
                    bindE (getindex entry 0) (\<lambda>user.
                    bindE (str_concat ''owntracks/user/'' user) (\<lambda>topic.
                    bindE (json_dumps (PDict message)) (\<lambda>text.
                    bindE (publish mqtt_server topic (PStr text)) (\<lambda>sent.
                    Inr packet)))))))))))))))))"

section \<open>APRS telemetry encoding (\<^verbatim>\<open>AprsPlugin\<close>)\<close>

text \<open>
  \<^verbatim>\<open>chr(i)\<close>: the code point of the one-character string. The argument is first
  converted to a C \<^verbatim>\<open>int\<close>, which raises OverflowError outside the range of a
  signed integer of 32 bits; then ValueError is raised outside
  \<^verbatim>\<open>range(0x110000)\<close>. The strings of this section are lists of code points.
\<close>

definition py_chr :: "int \<Rightarrow> nat result" where
  "py_chr i =
     (if i < - 2147483648 \<or> 2147483647 < i then Inl OverflowError
      else if 0 \<le> i \<and> i < 1114112 then Inr (nat i)
      else Inl ValueError)"

definition base91_encode :: "int \<Rightarrow> nat list result" where
  "base91_encode v =
     (let d1 = v div 91; d2 = v mod 91 in
      bindE (py_chr (d1 + 33)) (\<lambda>c1.
      bindE (py_chr (d2 + 33)) (\<lambda>c2.
      Inr [c1, c2])))"

text \<open>The list comprehension of line 563.\<close>

fun encode_each :: "int list \<Rightarrow> nat list list result" where
  "encode_each [] = Inr []"
| "encode_each (v # vs) =
     bindE (base91_encode v) (\<lambda>e. bindE (encode_each vs) (\<lambda>es. Inr (e # es)))"

text \<open>
  \<^verbatim>\<open>encode_igate_telemetry\<close> reads and writes the attribute \<^verbatim>\<open>telemetry_seq\<close>,
  whose value at startup is \<open>-1\<close> (line 427). The function takes the attribute and
  returns its new value with the outcome; the attribute is written (line 561) before
  anything can raise. 124 is the code point of the pipe character.
\<close>

definition initial_telemetry_seq :: int where
  "initial_telemetry_seq = -1"

definition encode_igate_telemetry :: "int \<Rightarrow> int list \<Rightarrow> int \<times> nat list result" where
  "encode_igate_telemetry telemetry_seq vals =
     (let seq = (telemetry_seq + 1) mod 1000 in
      (seq, bindE (encode_each (seq # vals)) (\<lambda>encoded. Inr ([124] @ concat encoded @ [124]))))"

text \<open>
  Modelled from the spec: the decoder of a base-91 pair, which the repository does not
  contain. The first character counts 91 and the second 1, each after taking off the
  offset 33.
\<close>

definition base91_decode :: "nat list \<Rightarrow> int option" where
  "base91_decode cs =
     (case cs of [c1, c2] \<Rightarrow> Some ((int c1 - 33) * 91 + (int c2 - 33)) | _ \<Rightarrow> None)"

text \<open>The telemetry counter after \<open>n\<close> encodings since startup, whatever the values.\<close>

fun seq_after :: "nat \<Rightarrow> int list \<Rightarrow> int" where
  "seq_after 0 vals = initial_telemetry_seq"
| "seq_after (Suc n) vals = fst (encode_igate_telemetry (seq_after n vals) vals)"

section \<open>The radio interface\<close>

text \<open>
  A connected radio, as the plugins use it: what \<^verbatim>\<open>getMyNodeInfo()\<close> returns, the
  node directory \<^verbatim>\<open>nodesByNum\<close> keyed by node number, and the three ways of sending
  (\<^verbatim>\<open>sendText\<close>; \<^verbatim>\<open>sendPosition\<close>; lines 709 to 718, the build and the send of a
  raw application packet from a payload, a port number and a destination), which may
  raise.
\<close>

record interface =
  my_node_info :: pyval
  nodes_by_num :: "(int \<times> pyval) list"
  send_text :: "pyval \<Rightarrow> pyval \<Rightarrow> unit result"
  send_position :: "pyval \<Rightarrow> pyval \<Rightarrow> pyval \<Rightarrow> pyval \<Rightarrow> unit result"
  send_payload :: "pyval \<Rightarrow> pyval \<Rightarrow> pyval \<Rightarrow> unit result"

text \<open>
  \<^verbatim>\<open>nodesByNum[num]\<close> and \<^verbatim>\<open>num in nodesByNum\<close> with a value of the packet: a
  number finds the key it equals, an unhashable value raises TypeError.
\<close>

fun lookup_num :: "(int \<times> 'a) list \<Rightarrow> pyval \<Rightarrow> 'a option result" where
  "lookup_num nodes (PInt i) = Inr (map_of nodes i)"
| "lookup_num nodes (PBool b) = Inr (map_of nodes (if b then 1 else 0))"
| "lookup_num nodes (PFloat r) = Inr (if r = of_int \<lfloor>r\<rfloor> then map_of nodes \<lfloor>r\<rfloor> else None)"
| "lookup_num nodes (PList xs) = Inl TypeError"
| "lookup_num nodes (PDict d) = Inl TypeError"
| "lookup_num nodes v = Inr None"

section \<open>Identity enrichment (\<^verbatim>\<open>AddUserInfoFilter\<close>)\<close>

text \<open>Only KeyError is caught (line 100); the packet is then returned as it came.\<close>

definition AddUserInfoFilter_do_action :: "interface option \<Rightarrow> pyval \<Rightarrow> pyval result" where
  "AddUserInfoFilter_do_action iface packet =
     (case iface of
        None \<Rightarrow> Inr packet
      | Some radio \<Rightarrow>
          (case bindE (getitem packet ''from'') (\<lambda>from_num.
                bindE (lookup_num (nodes_by_num radio) from_num) (\<lambda>node.
                case node of
                  None \<Rightarrow> Inl KeyError
                | Some info \<Rightarrow>
                    bindE (getitem info ''user'') (\<lambda>user.
                    setitem packet ''fromUser'' user)))
           of Inl KeyError \<Rightarrow> Inr packet
            | outcome \<Rightarrow> outcome))"

section \<open>Webhook dispatcher (\<^verbatim>\<open>WebhookPlugin\<close>)\<close>

text \<open>
  Lines 283 to 286: the loop over \<^verbatim>\<open>os.environ\<close> for one header value. The
  environment is a list of names and values.
\<close>

type_synonym environ = "(string \<times> string) list"

fun substitute_env :: "environ \<Rightarrow> pyval \<Rightarrow> pyval result" where
  "substitute_env [] v = Inr v"
| "substitute_env ((ek, ev) # env) v =
     bindE (py_in (PStr (''{'' @ ek @ ''}'')) v) (\<lambda>found.
     if found
     then bindE (replace_method v (''{'' @ ek @ ''}'') (Inr (PStr ev))) (substitute_env env)
     else substitute_env env v)"

text \<open>
  Lines 282 to 288: the loop over the items of \<^verbatim>\<open>headers\<close>, with the assignment
  \<^verbatim>\<open>headers[k] = v\<close> of line 288. The function returns the dictionary as the loop
  leaves it, also when a header raises.
\<close>

fun substitute_headers :: "environ \<Rightarrow> (string \<times> pyval) list \<Rightarrow> (string \<times> pyval) list \<Rightarrow> (string \<times> pyval) list \<times> unit result" where
  "substitute_headers env [] headers = (headers, Inr ())"
| "substitute_headers env ((k, v) # items) headers =
     (case substitute_env env v of
        Inl e \<Rightarrow> (headers, Inl e)
      | Inr v' \<Rightarrow> substitute_headers env items (AList.update k v' headers))"

text \<open>Lines 258 to 276: the body of the request, with the five macros replaced in order.\<close>

definition webhook_macros :: "config \<Rightarrow> pyval \<Rightarrow> (string \<times> pyval) list result" where
  "webhook_macros config packet =
     bindE (getitem packet ''decoded'') (\<lambda>decoded.
     bindE (py_in (PStr ''position'') decoded) (\<lambda>has_position.
     bindE (if has_position then getitem decoded ''position'' else Inr PNone) (\<lambda>p.
     bindE (py_in (PStr ''text'') decoded) (\<lambda>has_text.
     bindE (if has_text then getitem decoded ''text'' else Inr PNone) (\<lambda>text.
     bindE (if truthy p then getitem p ''latitude'' else Inr (PStr [])) (\<lambda>lat.
     bindE (if truthy p then getitem p ''longitude'' else Inr (PStr [])) (\<lambda>lng.
     bindE (if has_key config ''message'' then cfg config ''message'' else Inr text) (\<lambda>msg.
     bindE (getitem packet ''fromId'') (\<lambda>fid.
     bindE (getitem packet ''toId'') (\<lambda>tid.
     Inr [(''{LAT}'', lat), (''{LNG}'', lng), (''{MSG}'', msg), (''{FID}'', fid),
          (''{TID}'', tid)]))))))))))"

fun replace_macros :: "(pyval \<Rightarrow> string) \<Rightarrow> (string \<times> pyval) list \<Rightarrow> pyval \<Rightarrow> pyval result" where
  "replace_macros py_str [] body = Inr body"
| "replace_macros py_str ((macro, v) # macros) body =
     bindE (replace_method body macro (Inr (PStr (py_str v)))) (replace_macros py_str macros)"

text \<open>
  Lines 258 to 278: the payload of the request, and the address, which line 278 reads
  for the debug message.
\<close>

definition webhook_request :: "(pyval \<Rightarrow> string) \<Rightarrow> (pyval \<Rightarrow> pyval result) \<Rightarrow> config \<Rightarrow> pyval \<Rightarrow> (pyval \<times> pyval) result" where
  "webhook_request py_str json_loads config packet =
     bindE (webhook_macros config packet) (\<lambda>macros.
     bindE (cfg config ''body'') (\<lambda>body.
     bindE (replace_macros py_str macros body) (\<lambda>body'.
     bindE (json_loads body') (\<lambda>payload.
     bindE (cfg config ''url'') (\<lambda>url. Inr (payload, url))))))"

text \<open>
  Lines 281 to 295, with the configuration as state: \<^verbatim>\<open>headers\<close> is the dictionary
  \<^verbatim>\<open>self.config["headers"]\<close> itself, so the assignments of line 288 change the
  configuration. \<^verbatim>\<open>requests.post\<close> is the parameter \<open>http_post\<close>, which answers
  \<^verbatim>\<open>response.ok\<close>. The result is the configuration after the call and the outcome.
\<close>

definition webhook_send :: "environ \<Rightarrow> (pyval \<Rightarrow> pyval \<Rightarrow> pyval \<Rightarrow> bool result) \<Rightarrow> config \<Rightarrow> pyval \<Rightarrow> pyval \<Rightarrow> pyval \<Rightarrow> config \<times> pyval result" where
  "webhook_send env http_post config packet payload url =
     (case map_of config ''headers'' of
        None \<Rightarrow> (config, bindE (http_post url (PDict []) payload) (\<lambda>ok. Inr packet))
      | Some (PDict headers) \<Rightarrow>
          (case substitute_headers env headers headers of
             (headers', Inl e) \<Rightarrow> (AList.update ''headers'' (PDict headers') config, Inl e)
           | (headers', Inr u) \<Rightarrow>
               (AList.update ''headers'' (PDict headers') config,
                bindE (http_post url (PDict headers') payload) (\<lambda>ok. Inr packet)))
      | Some other \<Rightarrow> (config, Inl AttributeError))"

definition WebhookPlugin_do_action :: "(pyval \<Rightarrow> string) \<Rightarrow> (pyval \<Rightarrow> pyval result) \<Rightarrow> environ \<Rightarrow> (pyval \<Rightarrow> pyval \<Rightarrow> pyval \<Rightarrow> bool result) \<Rightarrow> config \<Rightarrow> pyval \<Rightarrow> config \<times> pyval result" where
  "WebhookPlugin_do_action py_str json_loads env http_post config packet =
     (if (case map_of config ''active'' of Some active \<Rightarrow> \<not> truthy active | None \<Rightarrow> False)
      then (config, Inr packet)
      else if \<not> has_key config ''body'' then (config, Inr packet)
      else
        case webhook_request py_str json_loads config packet of
          Inl e \<Rightarrow> (config, Inl e)
        | Inr (payload, url) \<Rightarrow> webhook_send env http_post config packet payload url)"

section \<open>Radio egress (\<^verbatim>\<open>RadioMessagePlugin\<close>)\<close>

text \<open>
  \<^verbatim>\<open>obj[key]\<close> with a value as key. A dictionary (whose keys are strings) finds a
  string key, raises TypeError on an unhashable key and KeyError on any other; a list, a
  string or a bytes object is indexed by an integer or a boolean, a negative index counting
  from the end, and raises TypeError on any other key.
\<close>

fun index_key :: "pyval \<Rightarrow> int option" where
  "index_key (PInt i) = Some i"
| "index_key (PBool b) = Some (if b then 1 else 0)"
| "index_key key = None"

definition element :: "'a list \<Rightarrow> pyval \<Rightarrow> 'a result" where
  "element xs key =
     (case index_key key of
        None \<Rightarrow> Inl TypeError
      | Some i \<Rightarrow>
          (let j = (if i < 0 then i + int (length xs) else i)
           in if 0 \<le> j \<and> j < int (length xs) then Inr (xs ! nat j) else Inl IndexError))"

definition subscript :: "pyval \<Rightarrow> pyval \<Rightarrow> pyval result" where
  "subscript obj key =
     (case obj of
        PDict d \<Rightarrow>
          (case key of
             PStr k \<Rightarrow> getitem obj k
           | PList xs \<Rightarrow> Inl TypeError
           | PDict e \<Rightarrow> Inl TypeError
           | _ \<Rightarrow> Inl KeyError)
      | PList xs \<Rightarrow> element xs key
      | PStr s \<Rightarrow> bindE (element s key) (\<lambda>c. Inr (PStr [c]))
      | PBytes s \<Rightarrow> bindE (element s key) (\<lambda>c. Inr (PInt (of_char c)))
      | _ \<Rightarrow> Inl TypeError)"

text \<open>Lines 660 to 671: the destination.\<close>

definition destination :: "config \<Rightarrow> pyval \<Rightarrow> pyval result" where
  "destination config packet =
     (if has_key config ''to'' then cfg config ''to''
      else if has_key config ''toId'' then cfg config ''toId''
      else
        bindE (if has_key config ''node_mapping'' then py_in (PStr ''to'') packet
               else Inr False) (\<lambda>mapped.
        if mapped
        then bindE (cfg config ''node_mapping'') (\<lambda>node_mapping.
             bindE (getitem packet ''to'') (\<lambda>to_num. subscript node_mapping to_num))
        else
          bindE (py_in (PStr ''to'') packet) (\<lambda>has_to.
          if has_to then getitem packet ''to''
          else bindE (py_in (PStr ''toId'') packet) (\<lambda>has_toId.
               if has_toId then getitem packet ''toId'' else Inr PNone))))"

text \<open>\<^verbatim>\<open>key in self.config and self.config[key] > 0\<close>.\<close>

definition positive_option :: "config \<Rightarrow> string \<Rightarrow> bool result" where
  "positive_option config k =
     (if has_key config k
      then bindE (cfg config k) (\<lambda>v.
           case num_val v of None \<Rightarrow> Inl TypeError | Some x \<Rightarrow> Inr (x > 0))
      else Inr False)"

definition RadioMessagePlugin_do_action :: "(string \<times> interface) list \<Rightarrow> config \<Rightarrow> pyval \<Rightarrow> pyval result" where
  "RadioMessagePlugin_do_action devs config packet =
     bindE (cfg config ''device'') (\<lambda>device_name.
     bindE (lookup_named devs device_name) (\<lambda>registered.
     case registered of
       None \<Rightarrow> Inr packet
     | Some device \<Rightarrow>
         bindE (destination config packet) (\<lambda>destinationId.
         if \<not> truthy destinationId then Inr packet
         else
           bindE (andE (py_in (PStr ''decoded'') packet)
                 (andE (bindE (getitem packet ''decoded'') (py_in (PStr ''text'')))
                       (bindE (py_in (PStr ''from'') packet) (\<lambda>has_from. Inr (\<not> has_from)))))
             (\<lambda>is_text.
           if is_text
           then bindE (get_path packet [''decoded'', ''text'']) (\<lambda>text.
                bindE (send_text device text destinationId) (\<lambda>sent. Inr packet))
           else
             bindE (andE (positive_option config ''lat'') (positive_option config ''lng''))
               (\<lambda>is_position.
             if is_position
             then bindE (cfg config ''lat'') (\<lambda>lat.
                  bindE (cfg config ''lng'') (\<lambda>lng.
                  bindE (if has_key config ''alt'' then cfg config ''alt'' else Inr (PInt 0))
                    (\<lambda>altitude.
                  bindE (send_position device lat lng altitude destinationId) (\<lambda>sent.
                  Inr packet))))
             else
               bindE (andE (py_in (PStr ''decoded'') packet)
                     (andE (bindE (getitem packet ''decoded'') (py_in (PStr ''payload'')))
                           (bindE (getitem packet ''decoded'') (py_in (PStr ''portnum'')))))
                 (\<lambda>is_payload.
               if is_payload
               then bindE (get_path packet [''decoded'', ''payload'']) (\<lambda>payload.
                    bindE (get_path packet [''decoded'', ''portnum'']) (\<lambda>portnum.
                    bindE (send_payload device payload portnum destinationId) (\<lambda>sent.
                    Inr packet)))
               else Inr packet))))))"

section \<open>APRS beacons (\<^verbatim>\<open>AprsPlugin.do_action\<close>)\<close>

text \<open>
  The relay session and the regular-expression library are outside the repository:
  \<^item> \<open>announce_parameters\<close>: lines 493 to 498, the telemetry-schema announcement built
    from the configuration and sent;
  \<^item> \<open>send_igate_beacon\<close>: lines 501 to 510, the position report built from the
    configuration, the position and the encoded telemetry, and sent;
  \<^item> \<open>match_device_name\<close>: lines 540 to 553, the pattern made of the device name
    format, matched against a long name; it gives the dictionary of the named groups,
    or nothing when the name does not match;
  \<^item> \<open>send_node_beacon\<close>: lines 512 to 527, the position report of another node;
  \<^item> \<open>two_hours_ago\<close>: the timestamp of line 579.
\<close>

record aprs_session =
  announce_parameters :: "config \<Rightarrow> unit result"
  send_igate_beacon :: "config \<Rightarrow> pyval \<Rightarrow> nat list \<Rightarrow> unit result"
  match_device_name :: "pyval \<Rightarrow> pyval \<Rightarrow> config option result"
  send_node_beacon :: "config \<Rightarrow> config \<Rightarrow> pyval \<Rightarrow> unit result"
  two_hours_ago :: int

text \<open>Lines 476 to 483: a KeyError inside the test makes it answer \<^verbatim>\<open>False\<close>.\<close>

definition false_on_KeyError :: "bool result \<Rightarrow> bool result" where
  "false_on_KeyError outcome = (case outcome of Inl KeyError \<Rightarrow> Inr False | _ \<Rightarrow> outcome)"

definition is_position_packet :: "pyval \<Rightarrow> bool result" where
  "is_position_packet packet =
     false_on_KeyError
       (andE (bindE (get_path packet [''decoded'', ''portnum''])
                (\<lambda>portnum. Inr (py_eq portnum (PStr ''POSITION_APP''))))
       (andE (bindE (get_path packet [''decoded'', ''position'', ''latitude''])
                (\<lambda>lat. Inr (lat \<noteq> PNone)))
             (bindE (get_path packet [''decoded'', ''position'', ''longitude''])
                (\<lambda>lon. Inr (lon \<noteq> PNone)))))"

text \<open>Line 580: the nodes heard of after the timestamp; \<^verbatim>\<open>n.get("lastHeard", 0)\<close>.\<close>

fun count_online :: "int \<Rightarrow> pyval list \<Rightarrow> int result" where
  "count_online ts [] = Inr 0"
| "count_online ts (n # nodes) =
     (case n of
        PDict d \<Rightarrow>
          (case num_val (case map_of d ''lastHeard'' of None \<Rightarrow> PInt 0 | Some heard \<Rightarrow> heard) of
             None \<Rightarrow> Inl TypeError
           | Some heard \<Rightarrow>
               bindE (count_online ts nodes) (\<lambda>c.
               Inr ((if heard > real_of_int ts then 1 else 0) + c)))
      | _ \<Rightarrow> Inl AttributeError)"

definition get_igate_telemetry :: "aprs_session \<Rightarrow> interface \<Rightarrow> int list result" where
  "get_igate_telemetry aprs radio =
     bindE (count_online (two_hours_ago aprs) (map snd (nodes_by_num radio))) (\<lambda>online_cnt.
     Inr [online_cnt, int (length (nodes_by_num radio))])"

text \<open>
  Lines 485 to 510, with the attribute \<^verbatim>\<open>telemetry_seq\<close> as state: the result is its
  value after the call and the outcome.
\<close>

definition report_self_position :: "aprs_session \<Rightarrow> interface \<Rightarrow> config \<Rightarrow> int \<Rightarrow> pyval \<Rightarrow> int \<times> unit result" where
  "report_self_position aprs radio config telemetry_seq p =
     (case (if telemetry_seq = -1 then announce_parameters aprs config else Inr ()) of
        Inl e \<Rightarrow> (telemetry_seq, Inl e)
      | Inr announced \<Rightarrow>
          (case get_igate_telemetry aprs radio of
             Inl e \<Rightarrow> (telemetry_seq, Inl e)
           | Inr vals \<Rightarrow>
               (case encode_igate_telemetry telemetry_seq vals of
                  (seq, Inl e) \<Rightarrow> (seq, Inl e)
                | (seq, Inr telemetry_base91) \<Rightarrow>
                    (seq, send_igate_beacon aprs config p telemetry_base91))))"

text \<open>Lines 529 to 557; \<^verbatim>\<open>self.config.get("device_name_format", default)\<close>.\<close>

definition parse_aprs_data :: "aprs_session \<Rightarrow> interface \<Rightarrow> config \<Rightarrow> pyval \<Rightarrow> config result" where
  "parse_aprs_data aprs radio config packet =
     bindE (getitem packet ''from'') (\<lambda>from_num.
     bindE (lookup_num (nodes_by_num radio) from_num) (\<lambda>node.
     case node of
       None \<Rightarrow> Inl ValueError
     | Some info \<Rightarrow>
         bindE (py_in (PStr ''user'') info) (\<lambda>has_user.
         if \<not> has_user then Inl ValueError
         else
           bindE (getitem info ''user'') (\<lambda>user.
           bindE (py_in (PStr ''longName'') user) (\<lambda>has_name.
           if \<not> has_name then Inl ValueError
           else
             bindE (getitem user ''longName'') (\<lambda>long_name.
             bindE (match_device_name aprs
                      (case map_of config ''device_name_format'' of
                         None \<Rightarrow> PStr ''{CALLSIGN} +CBAPRS{SYMBOL}{COMMENT}''
                       | Some format \<Rightarrow> format) long_name) (\<lambda>aprs_data_matches.
             case aprs_data_matches of
               None \<Rightarrow> Inl ValueError
             | Some aprs_data \<Rightarrow>
                 if \<not> has_key aprs_data ''callsign'' \<or> \<not> has_key aprs_data ''symbol''
                 then Inl ValueError
                 else Inr aprs_data)))))))"

text \<open>
  Lines 456 to 472. ValueError is caught around the report of another node's position
  (line 469), and nothing else is.
\<close>

definition AprsPlugin_do_action :: "aprs_session \<Rightarrow> interface option \<Rightarrow> config \<Rightarrow> int \<Rightarrow> pyval \<Rightarrow> int \<times> pyval result" where
  "AprsPlugin_do_action aprs iface config telemetry_seq packet =
     (case iface of
        None \<Rightarrow> (telemetry_seq, Inr packet)
      | Some radio \<Rightarrow>
          (case andE (is_position_packet packet)
                  (bindE (getitem packet ''from'') (\<lambda>sender.
                   bindE (getitem (my_node_info radio) ''num'') (\<lambda>num.
                   Inr (py_eq sender num)))) of
             Inl e \<Rightarrow> (telemetry_seq, Inl e)
           | Inr True \<Rightarrow>
               (case get_path packet [''decoded'', ''position''] of
                  Inl e \<Rightarrow> (telemetry_seq, Inl e)
                | Inr p \<Rightarrow>
                    (case report_self_position aprs radio config telemetry_seq p of
                       (seq, Inl e) \<Rightarrow> (seq, Inl e)
                     | (seq, Inr sent) \<Rightarrow> (seq, Inr packet)))
           | Inr False \<Rightarrow>
               (telemetry_seq,
                bindE (is_position_packet packet) (\<lambda>is_position.
                if is_position
                then (case bindE (parse_aprs_data aprs radio config packet) (\<lambda>aprs_data.
                           bindE (get_path packet [''decoded'', ''position''])
                             (send_node_beacon aprs config aprs_data))
                      of Inl ValueError \<Rightarrow> Inr packet
                       | Inl e \<Rightarrow> Inl e
                       | Inr sent \<Rightarrow> Inr packet)
                else Inr packet))))"

section \<open>Relay-network publisher (\<^verbatim>\<open>NoStrPlugin\<close>)\<close>

text \<open>
  The relay manager and the key library are outside the repository:
  \<^item> \<open>open_relays\<close>: lines 749 to 761, the connections to the listed relays and the
    startup wait;
  \<^item> \<open>load_keys\<close>: lines 771 and 772, the private and the public key read from their
    texts;
  \<^item> \<open>publish_event\<close>: lines 779 to 790, the signed event of a message published, the
    publish wait and the closing of the connections.
\<close>

record nostr_client =
  open_relays :: "pyval list \<Rightarrow> pyval \<Rightarrow> unit result"
  load_keys :: "pyval \<Rightarrow> pyval \<Rightarrow> unit result"
  publish_event :: "pyval \<Rightarrow> pyval \<Rightarrow> pyval \<Rightarrow> pyval \<Rightarrow> unit result"

text \<open>
  Lines 764 to 769: the loop over \<^verbatim>\<open>os.environ\<close>, which assigns
  \<^verbatim>\<open>self.config["private_key"]\<close>. The function returns the configuration as the loop
  leaves it, also when it raises.
\<close>

fun substitute_private_key :: "environ \<Rightarrow> config \<Rightarrow> config \<times> unit result" where
  "substitute_private_key [] config = (config, Inr ())"
| "substitute_private_key ((ek, ev) # env) config =
     (case bindE (cfg config ''private_key'') (\<lambda>private_key.
           bindE (py_in (PStr (''{'' @ ek @ ''}'')) private_key) (\<lambda>found.
           if found
           then bindE (cfg config ''private_key'') (\<lambda>private_key.
                bindE (replace_method private_key (''{'' @ ek @ ''}'') (Inr (PStr ev)))
                  (\<lambda>replaced. Inr (Some replaced)))
           else Inr None))
      of Inl e \<Rightarrow> (config, Inl e)
       | Inr None \<Rightarrow> substitute_private_key env config
       | Inr (Some replaced) \<Rightarrow>
           substitute_private_key env (AList.update ''private_key'' replaced config))"

text \<open>Lines 774 to 777: the message.\<close>

definition nostr_message :: "config \<Rightarrow> pyval \<Rightarrow> pyval result" where
  "nostr_message config packet =
     (if has_key config ''message''
      then bindE (cfg config ''message'') (\<lambda>template.
           replace_method template ''{MSG}'' (get_path packet [''decoded'', ''text'']))
      else get_path packet [''decoded'', ''text''])"

text \<open>Lines 737 to 761: the relays of the configuration after the two defaults, opened.\<close>

definition nostr_open :: "nostr_client \<Rightarrow> config \<Rightarrow> unit result" where
  "nostr_open client config =
     bindE (if has_key config ''relays'' then bindE (cfg config ''relays'') py_iter
            else Inr []) (\<lambda>configured.
     bindE (if has_key config ''startup_wait'' then cfg config ''startup_wait''
            else Inr (PFloat 1.25)) (\<lambda>startup_wait.
     open_relays client
       ([PStr ''wss://nostr-pub.wellorder.net'', PStr ''wss://relay.damus.io''] @ configured)
       startup_wait))"

text \<open>Lines 771 to 792: the keys, the message and the publication.\<close>

definition nostr_publish :: "nostr_client \<Rightarrow> config \<Rightarrow> pyval \<Rightarrow> pyval result" where
  "nostr_publish client config packet =
     bindE (cfg config ''private_key'') (\<lambda>private_key.
     bindE (cfg config ''public_key'') (\<lambda>public_key.
     bindE (load_keys client private_key public_key) (\<lambda>loaded.
     bindE (nostr_message config packet) (\<lambda>message.
     bindE (if has_key config ''publish_wait'' then cfg config ''publish_wait''
            else Inr (PInt 1)) (\<lambda>publish_wait.
     bindE (publish_event client private_key public_key message publish_wait)
       (\<lambda>published. Inr packet))))))"

text \<open>
  The stage with its configuration as state, as for the webhook dispatcher: the keys are
  read from the configuration as the loop of lines 764 to 769 left it.
\<close>

definition NoStrPlugin_do_action :: "nostr_client \<Rightarrow> environ \<Rightarrow> config \<Rightarrow> pyval \<Rightarrow> config \<times> pyval result" where
  "NoStrPlugin_do_action client env config packet =
     (if \<not> has_key config ''private_key'' then (config, Inr packet)
      else if \<not> has_key config ''public_key'' then (config, Inr packet)
      else
        case nostr_open client config of
          Inl e \<Rightarrow> (config, Inl e)
        | Inr opened \<Rightarrow>
            (case substitute_private_key env config of
               (config', Inl e) \<Rightarrow> (config', Inl e)
             | (config', Inr substituted) \<Rightarrow> (config', nostr_publish client config' packet)))"

section \<open>The registry of stages\<close>

text \<open>
  The keys of the dictionary \<^verbatim>\<open>plugins\<close>: one stage for each plugin of the file.
\<close>

datatype stage =
    packet_filter
  | debugger
  | add_user_info
  | message_filter
  | location_filter
  | webhook
  | mqtt_plugin
  | owntracks_plugin
  | aprs_plugin
  | encrypt_filter
  | decrypt_filter
  | radio_message_plugin
  | nostr_plugin

text \<open>
  What a stage holds and can change: \<^verbatim>\<open>self.config\<close> and, for the APRS adapter,
  \<^verbatim>\<open>self.telemetry_seq\<close>.
\<close>

record plugin =
  self_config :: config
  self_telemetry_seq :: int

text \<open>
  What \<^verbatim>\<open>configure\<close> stored besides the configuration (the device registry, the
  broker registry, the optional radio interface), the environment variables, and the
  libraries the stages call.
\<close>

record ('pk, 'sk, 'tok) world =
  radio_devices :: "(string \<times> interface) list"
  brokers :: mqtt_servers
  radio :: "interface option"
  os_environ :: environ
  lib_json_loads :: "pyval \<Rightarrow> pyval result"
  lib_json_dumps :: "pyval \<Rightarrow> string result"
  lib_b64encode :: "string \<Rightarrow> string"
  lib_str :: "pyval \<Rightarrow> string"
  lib_divide :: "pyval \<Rightarrow> pyval result"
  lib_re_search :: "pyval \<Rightarrow> pyval \<Rightarrow> bool result"
  lib_haversine :: "position \<Rightarrow> position \<Rightarrow> real result"
  lib_http_post :: "pyval \<Rightarrow> pyval \<Rightarrow> pyval \<Rightarrow> bool result"
  lib_crypto :: "('pk, 'sk, 'tok) crypto"
  lib_aprs :: aprs_session
  lib_nostr :: nostr_client

text \<open>
  \<^verbatim>\<open>plugins[stage].do_action(packet)\<close> for a stage whose configuration is a
  dictionary: the stage after the call, and the outcome. The geofence filter asks a
  device only for its node information.
\<close>

fun do_action :: "('pk, 'sk, 'tok) world \<Rightarrow> stage \<Rightarrow> plugin \<Rightarrow> pyval \<Rightarrow> plugin \<times> pyval result" where
  "do_action w packet_filter self packet =
     (self, PacketFilter_do_action (lib_json_loads w) (lib_b64encode w) packet)"
| "do_action w debugger self packet = (self, DebugFilter_do_action packet)"
| "do_action w add_user_info self packet = (self, AddUserInfoFilter_do_action (radio w) packet)"
| "do_action w message_filter self packet =
     (self, MessageFilter_do_action (lib_re_search w) (self_config self) packet)"
| "do_action w location_filter self packet =
     (self, LocationFilter_do_action (lib_haversine w) (self_config self)
              (map (\<lambda>(name, device). (name, my_node_info device)) (radio_devices w)) packet)"
| "do_action w webhook self packet =
     (case WebhookPlugin_do_action (lib_str w) (lib_json_loads w) (os_environ w) (lib_http_post w)
             (self_config self) packet of
        (config', outcome) \<Rightarrow> (self\<lparr>self_config := config'\<rparr>, outcome))"
| "do_action w mqtt_plugin self packet =
     (self, MQTTPlugin_do_action (lib_json_dumps w) (self_config self) (brokers w) packet)"
| "do_action w owntracks_plugin self packet =
     (self, OwntracksPlugin_do_action (lib_str w) (lib_divide w) (lib_json_dumps w)
              (self_config self) (brokers w) packet)"
| "do_action w aprs_plugin self packet =
     (case AprsPlugin_do_action (lib_aprs w) (radio w) (self_config self)
             (self_telemetry_seq self) packet of
        (seq, outcome) \<Rightarrow> (self\<lparr>self_telemetry_seq := seq\<rparr>, outcome))"
| "do_action w encrypt_filter self packet =
     (self, EncryptFilter_do_action (lib_crypto w) (PDict (self_config self)) packet)"
| "do_action w decrypt_filter self packet =
     (self, DecryptFilter_do_action (lib_crypto w) (PDict (self_config self)) packet)"
| "do_action w radio_message_plugin self packet =
     (self, RadioMessagePlugin_do_action (radio_devices w) (self_config self) packet)"
| "do_action w nostr_plugin self packet =
     (case NoStrPlugin_do_action (lib_nostr w) (os_environ w) (self_config self) packet of
        (config', outcome) \<Rightarrow> (self\<lparr>self_config := config'\<rparr>, outcome))"

section \<open>Example inputs\<close>

text \<open>
  A position packet at latitude 0, longitude 0, as the radio library delivers it, and a
  text packet.
\<close>

definition position_packet :: pyval where
  "position_packet =
     PDict [(''from'', PInt 101), (''fromId'', PStr ''!a''), (''toId'', PStr ''!b''),
            (''decoded'', PDict [(''portnum'', PStr ''POSITION_APP''),
                                 (''position'', PDict [(''latitude'', PFloat 0),
                                                       (''longitude'', PFloat 0)])])]"

definition text_packet :: pyval where
  "text_packet =
     PDict [(''id'', PInt 7), (''fromId'', PStr ''!a''), (''toId'', PStr ''!b''),
            (''decoded'', PDict [(''portnum'', PStr ''TEXT_MESSAGE_APP''),
                                 (''text'', PStr ''hello'')])]"

text \<open>A geofence around latitude 0, longitude 1 with the given further options.\<close>

definition fence :: "config \<Rightarrow> config" where
  "fence options = [(''compare_latitude'', PInt 0), (''compare_longitude'', PInt 1)] @ options"

text \<open>
  A position packet that the tracking adapter publishes, and a tracking configuration
  that knows its sender.
\<close>

definition tracked_packet :: pyval where
  "tracked_packet =
     PDict [(''from'', PInt 101), (''rxTime'', PInt 1700000000),
            (''decoded'', PDict [(''portnum'', PStr ''POSITION_APP''),
                                 (''position'', PDict [(''latitude'', PFloat 48),
                                                       (''longitude'', PFloat 11),
                                                       (''time'', PInt 1700000000)])])]"

definition tracking_config :: config where
  "tracking_config =
     [(''tid_table'', PDict [(''101'', PList [PStr ''alice'', PStr ''al''])]),
      (''server_name'', PStr ''local'')]"

text \<open>
  A webhook configuration whose header takes a secret from the environment, and an
  environment that holds the secret.
\<close>

definition hook_config :: config where
  "hook_config =
     [(''url'', PStr ''https://example.org/hook''), (''body'', PStr ''{}''),
      (''headers'', PDict [(''Authorization'', PStr ''Bearer {TOKEN}'')])]"

definition secret_environ :: environ where
  "secret_environ = [(''TOKEN'', ''s3cret'')]"

text \<open>
  A relay-network configuration whose private key is a placeholder for the secret.
\<close>

definition relay_config :: config where
  "relay_config = [(''private_key'', PStr ''{TOKEN}''), (''public_key'', PStr ''npub1'')]"

text \<open>
  A world with no device, no broker and no radio, in which every library call succeeds:
  the JSON parser knows the text \<^verbatim>\<open>{}\<close>, which is the empty dictionary, and rejects
  everything else; the other libraries are stand-ins.
\<close>

definition plain_world :: "environ \<Rightarrow> (unit, unit, string) world" where
  "plain_world env =
     \<lparr> radio_devices = [], brokers = [], radio = None, os_environ = env,
       lib_json_loads = (\<lambda>v. if v = PStr ''{}'' then Inr (PDict []) else Inl ValueError),
       lib_json_dumps = (\<lambda>v. Inr ''text''),
       lib_b64encode = (\<lambda>b. b),
       lib_str = (\<lambda>v. ''text''),
       lib_divide = (\<lambda>v. Inr v),
       lib_re_search = (\<lambda>regex text. Inr True),
       lib_haversine = (\<lambda>src loc. Inr 0),
       lib_http_post = (\<lambda>url headers payload. Inr True),
       lib_crypto = toy_crypto text_packet ''text'',
       lib_aprs = \<lparr> announce_parameters = (\<lambda>config. Inr ()),
                    send_igate_beacon = (\<lambda>config p telemetry. Inr ()),
                    match_device_name = (\<lambda>format name. Inr None),
                    send_node_beacon = (\<lambda>config aprs_data p. Inr ()),
                    two_hours_ago = 0 \<rparr>,
       lib_nostr = \<lparr> open_relays = (\<lambda>relays startup_wait. Inr ()),
                     load_keys = (\<lambda>private_key public_key. Inr ()),
                     publish_event = (\<lambda>private_key public_key message publish_wait. Inr ()) \<rparr> \<rparr>"

section \<open>Properties of normalisation\<close>

lemma bindE_simps [simp]:
  "bindE (Inl e) f = Inl e"
  "bindE (Inr x) f = f x"
  by (simp_all add: bindE_def)

lemma strip_raw_is_dict [simp]: "is_dict (strip_raw v) = is_dict v"
  by (cases v) simp_all

lemma strip_raw_idem: "strip_raw (strip_raw v) = strip_raw v"
proof (induction v rule: strip_raw.induct)
  case (1 data)
  have ih: "strip_raw (strip_raw v) = strip_raw v"
    if "(k, v) \<in> set data" "k \<noteq> ''raw''" for k v
    using "1.IH" [of "(k, v)" k v] that by simp
  have step: "map (\<lambda>(k, v). (k, strip_raw v))
          (filter (\<lambda>(k, v). k \<noteq> ''raw'')
             (map (\<lambda>(k, v). (k, strip_raw v)) (filter (\<lambda>(k, v). k \<noteq> ''raw'') xs)))
        = map (\<lambda>(k, v). (k, strip_raw v)) (filter (\<lambda>(k, v). k \<noteq> ''raw'') xs)"
    if "set xs \<subseteq> set data" for xs
    using that by (induction xs) (auto simp: ih)
  show ?case using step [of data] by simp
qed simp_all

lemma strip_raw_no_raw_in_mappings: "no_raw_in_mappings (strip_raw v)"
proof (induction v rule: strip_raw.induct)
  case (1 data)
  have ih: "no_raw_in_mappings (strip_raw v)"
    if "(k, v) \<in> set data" "k \<noteq> ''raw''" for k v
    using "1.IH" [of "(k, v)" k v] that by simp
  show ?case by (auto simp: list_all_iff ih)
qed simp_all

text \<open>
  Claim C1, as the code has it. Whenever the input is a dictionary, or
  \<^verbatim>\<open>json.loads\<close> raises on it, or \<^verbatim>\<open>json.loads\<close> parses it to a
  dictionary, normalising twice gives what normalising once gives. For every input, the
  normal form holds no key \<^verbatim>\<open>raw\<close> in itself or in any dictionary reached through
  dictionary values; dictionaries inside lists are not visited.
\<close>

theorem normalize_idempotent_on_mappings:
  "(is_dict p \<or> isl (json_loads p) \<or> (\<exists>d. json_loads p = Inr (PDict d))
      \<longrightarrow> normalize_packet json_loads (normalize_packet json_loads p)
          = normalize_packet json_loads p)
   \<and> no_raw_in_mappings (normalize_packet json_loads p)"
proof -
  have idem: "normalize_packet json_loads (normalize_packet json_loads p)
      = normalize_packet json_loads p"
    if "is_dict p \<or> isl (json_loads p) \<or> (\<exists>d. json_loads p = Inr (PDict d))"
  proof -
    have dict: "is_dict (normalize_packet json_loads p)"
      using that by (auto simp: normalize_packet_def isl_def)
    have "normalize_packet json_loads (normalize_packet json_loads p)
        = strip_raw (normalize_packet json_loads p)"
      using dict by (simp add: normalize_packet_def [of json_loads "normalize_packet json_loads p"])
    also have "\<dots> = normalize_packet json_loads p"
      by (simp add: normalize_packet_def [of json_loads p] strip_raw_idem)
    finally show ?thesis .
  qed
  have "no_raw_in_mappings (normalize_packet json_loads p)"
    by (simp add: normalize_packet_def strip_raw_no_raw_in_mappings)
  with idem show ?thesis by blast
qed

text \<open>
  The theorem at the text \<^verbatim>\<open>ping\<close>, which \<^verbatim>\<open>json.loads\<close> rejects: it is
  wrapped as the text of a packet, and the wrapped packet is its own normal form.
\<close>

theorem normalize_idempotent_on_mappings_witness:
  "isl ((\<lambda>v. Inl ValueError :: pyval result) (PStr ''ping''))
   \<and> normalize_packet (\<lambda>v. Inl ValueError) (normalize_packet (\<lambda>v. Inl ValueError) (PStr ''ping''))
       = PDict [(''decoded'', PDict [(''text'', PStr ''ping'')])]
   \<and> normalize_packet (\<lambda>v. Inl ValueError) (PStr ''ping'')
       = PDict [(''decoded'', PDict [(''text'', PStr ''ping'')])]
   \<and> no_raw_in_mappings (normalize_packet (\<lambda>v. Inl ValueError) (PStr ''ping''))"
  using normalize_idempotent_on_mappings [of "PStr ''ping''" "\<lambda>v. Inl ValueError"]
  by (simp add: normalize_packet_def)

text \<open>
  Claim C1 as stated fails twice. A dictionary inside a list keeps its key
  \<^verbatim>\<open>raw\<close>: the packet \<^verbatim>\<open>{"neighbors": [{"raw": 1}]}\<close> is returned unchanged. And
  the text \<^verbatim>\<open>5\<close> parses to the integer 5, which is returned as it is; normalising
  the integer 5 again makes \<^verbatim>\<open>json.loads\<close> raise TypeError, and the integer is
  wrapped as the text of a packet. The parser used here does what \<^verbatim>\<open>json.loads\<close>
  does on the two values it is asked about.
\<close>

theorem normalize_keeps_raw_in_lists_and_reparses_scalars:
  "\<not> no_raw_key
       (normalize_packet (\<lambda>v. if v = PStr ''5'' then Inr (PInt 5) else Inl TypeError)
          (PDict [(''neighbors'', PList [PDict [(''raw'', PInt 1)]])]))
   \<and> normalize_packet (\<lambda>v. if v = PStr ''5'' then Inr (PInt 5) else Inl TypeError) (PStr ''5'')
       = PInt 5
   \<and> normalize_packet (\<lambda>v. if v = PStr ''5'' then Inr (PInt 5) else Inl TypeError)
         (normalize_packet (\<lambda>v. if v = PStr ''5'' then Inr (PInt 5) else Inl TypeError) (PStr ''5''))
       = PDict [(''decoded'', PDict [(''text'', PInt 5)])]"
  by (simp add: normalize_packet_def)

section \<open>Properties of the geofence filter\<close>

lemma has_key_map_of: "has_key config k \<longleftrightarrow> map_of config k \<noteq> None"
  by (simp add: has_key_def map_of_eq_None_iff)

lemma cfg_Inr_iff: "cfg config k = Inr v \<longleftrightarrow> map_of config k = Some v"
  by (simp add: cfg_def split: option.splits)

lemma cfg_has_key: "cfg config k = Inr v \<Longrightarrow> has_key config k"
  by (simp add: cfg_Inr_iff has_key_map_of)

lemma has_key_cfg: "has_key config k \<Longrightarrow> \<exists>v. cfg config k = Inr v"
  by (auto simp: cfg_Inr_iff has_key_map_of)

lemma getitem_Inr_dict: "getitem obj k = Inr v \<Longrightarrow> \<exists>d. obj = PDict d \<and> map_of d k = Some v"
  by (cases obj) (auto split: option.splits)

lemma comparison_mode_Inr: "\<exists>c. comparison_mode config = Inr c"
  using has_key_cfg [of config "''comparison''"] by (auto simp: comparison_mode_def)

lemma source_position_dict:
  assumes "source_position packet = Inr (Some src)"
  shows "is_dict packet"
proof (cases packet)
  case (PDict d)
  then show ?thesis by simp
next
  case (PList xs)
  with assms show ?thesis
    by (cases "list_ex (py_eq (PStr ''decoded'')) xs") (simp_all add: source_position_def)
next
  case (PStr s)
  with assms show ?thesis
    by (cases "substring ''decoded'' s") (simp_all add: source_position_def)
qed (use assms in \<open>simp_all add: source_position_def\<close>)

lemma set_position_field_not_None: "set_position_field packet field v \<noteq> Inr PNone"
proof (cases packet)
  case (PDict d)
  then show ?thesis
    by (auto simp: set_position_field_def bindE_def split: sum.splits)
qed (simp_all add: set_position_field_def)

lemma mask_position_not_None:
  assumes "packet \<noteq> PNone"
  shows "mask_position config packet \<noteq> Inr PNone"
  using assms set_position_field_not_None
  by (auto simp: mask_position_def bindE_def split: sum.splits if_splits)

lemma distance_check_resolved:
  assumes "source_position packet = Inr (Some src)"
    and "device_position config devs = Inr dp"
    and "reference_position config dp = Inr (Some loc)"
    and "haversine src loc = Inr d"
  shows "distance_check haversine config devs packet = beyond_threshold config d"
  using assms by (simp add: distance_check_def)

lemma do_action_dropped_iff:
  assumes "distance_check haversine config devs packet = Inr b" and "packet \<noteq> PNone"
  shows "LocationFilter_do_action haversine config devs packet = Inr PNone \<longleftrightarrow> b"
  using assms mask_position_not_None [of packet config]
  by (simp add: LocationFilter_do_action_def)

lemma beyond_threshold_positive:
  assumes "cfg config ''max_distance_km'' = Inr t" and "num_val t = Some x" and "0 < x"
    and "comparison_mode config = Inr c"
  shows "beyond_threshold config d =
           Inr ((py_eq c (PStr ''within'') \<and> x < d) \<or> (py_eq c (PStr ''outside'') \<and> d < x))"
  using assms cfg_has_key [OF assms(1)] by (auto simp: beyond_threshold_def)

lemma beyond_threshold_none:
  assumes "\<not> has_key config ''max_distance_km''
           \<or> (cfg config ''max_distance_km'' = Inr t \<and> num_val t = Some x \<and> x \<le> 0)"
  shows "beyond_threshold config d = Inr False"
proof -
  obtain c where c: "comparison_mode config = Inr c"
    using comparison_mode_Inr by blast
  from assms show ?thesis
  proof
    assume "\<not> has_key config ''max_distance_km''"
    with c show ?thesis by (simp add: beyond_threshold_def)
  next
    assume a: "cfg config ''max_distance_km'' = Inr t \<and> num_val t = Some x \<and> x \<le> 0"
    then have "has_key config ''max_distance_km''" by (simp add: cfg_has_key)
    with a c show ?thesis by (simp add: beyond_threshold_def)
  qed
qed

text \<open>
  Claim C7. The packet carries a position, a reference position is resolved and the
  library gives their distance \<open>d\<close>. With a positive threshold \<open>x\<close>, the packet is
  dropped under \<^verbatim>\<open>within\<close> exactly when \<open>d > x\<close> and under \<^verbatim>\<open>outside\<close>
  exactly when \<open>d < x\<close>; so a distance equal to the threshold is dropped under neither,
  and distance 0 passes under \<^verbatim>\<open>within\<close>. With no threshold, or one that is not
  positive, the packet is not dropped.
\<close>

theorem geofence_boundary:
  assumes "source_position packet = Inr (Some src)"
    and "device_position config devs = Inr dp"
    and "reference_position config dp = Inr (Some loc)"
    and "haversine src loc = Inr d"
  shows "(cfg config ''max_distance_km'' = Inr t \<and> num_val t = Some x \<and> 0 < x
            \<and> comparison_mode config = Inr (PStr ''within'')
          \<longrightarrow> (LocationFilter_do_action haversine config devs packet = Inr PNone \<longleftrightarrow> x < d)
              \<and> (d = x \<longrightarrow> LocationFilter_do_action haversine config devs packet \<noteq> Inr PNone)
              \<and> (d = 0 \<longrightarrow> LocationFilter_do_action haversine config devs packet \<noteq> Inr PNone))
       \<and> (cfg config ''max_distance_km'' = Inr t \<and> num_val t = Some x \<and> 0 < x
            \<and> comparison_mode config = Inr (PStr ''outside'')
          \<longrightarrow> (LocationFilter_do_action haversine config devs packet = Inr PNone \<longleftrightarrow> d < x)
              \<and> (d = x \<longrightarrow> LocationFilter_do_action haversine config devs packet \<noteq> Inr PNone))
       \<and> (\<not> has_key config ''max_distance_km''
            \<or> (cfg config ''max_distance_km'' = Inr t \<and> num_val t = Some x \<and> x \<le> 0)
          \<longrightarrow> LocationFilter_do_action haversine config devs packet \<noteq> Inr PNone)"
proof -
  have check: "distance_check haversine config devs packet = beyond_threshold config d"
    using assms by (rule distance_check_resolved)
  have packet: "packet \<noteq> PNone"
    using source_position_dict [OF assms(1)] by auto
  have dropped: "LocationFilter_do_action haversine config devs packet = Inr PNone \<longleftrightarrow> b"
    if "beyond_threshold config d = Inr b" for b
    using do_action_dropped_iff [of haversine config devs packet b] check packet that by simp
  have within: "LocationFilter_do_action haversine config devs packet = Inr PNone \<longleftrightarrow> x < d"
    if "cfg config ''max_distance_km'' = Inr t" "num_val t = Some x" "0 < x"
       "comparison_mode config = Inr (PStr ''within'')"
    using dropped [OF beyond_threshold_positive [OF that]] by simp
  have outside: "LocationFilter_do_action haversine config devs packet = Inr PNone \<longleftrightarrow> d < x"
    if "cfg config ''max_distance_km'' = Inr t" "num_val t = Some x" "0 < x"
       "comparison_mode config = Inr (PStr ''outside'')"
    using dropped [OF beyond_threshold_positive [OF that]] by simp
  have none: "LocationFilter_do_action haversine config devs packet \<noteq> Inr PNone"
    if "\<not> has_key config ''max_distance_km''
        \<or> (cfg config ''max_distance_km'' = Inr t \<and> num_val t = Some x \<and> x \<le> 0)"
    using dropped [OF beyond_threshold_none [OF that]] by simp
  show ?thesis
    using within outside none by auto
qed

text \<open>
  The theorem at a packet whose distance from the reference position is 111 km, with
  the threshold 111 km under \<^verbatim>\<open>within\<close> and under \<^verbatim>\<open>outside\<close>, and with the
  threshold 0.
\<close>

theorem geofence_boundary_witness:
  "source_position position_packet = Inr (Some (PFloat 0, PFloat 0))
   \<and> device_position (fence [(''max_distance_km'', PInt 111)]) [] = Inr None
   \<and> reference_position (fence [(''max_distance_km'', PInt 111)]) None = Inr (Some (PInt 0, PInt 1))
   \<and> comparison_mode (fence [(''max_distance_km'', PInt 111)]) = Inr (PStr ''within'')
   \<and> LocationFilter_do_action (\<lambda>src loc. Inr 111) (fence [(''max_distance_km'', PInt 111)]) []
        position_packet \<noteq> Inr PNone
   \<and> comparison_mode (fence [(''max_distance_km'', PInt 111), (''comparison'', PStr ''outside'')])
        = Inr (PStr ''outside'')
   \<and> LocationFilter_do_action (\<lambda>src loc. Inr 111)
        (fence [(''max_distance_km'', PInt 111), (''comparison'', PStr ''outside'')]) []
        position_packet \<noteq> Inr PNone
   \<and> LocationFilter_do_action (\<lambda>src loc. Inr 111) (fence [(''max_distance_km'', PInt 0)]) []
        position_packet \<noteq> Inr PNone"
proof -
  let ?hav = "\<lambda>(src :: position) (loc :: position). Inr 111 :: real result"
  let ?within = "fence [(''max_distance_km'', PInt 111)]"
  let ?outside = "fence [(''max_distance_km'', PInt 111), (''comparison'', PStr ''outside'')]"
  let ?zero = "fence [(''max_distance_km'', PInt 0)]"
  have src: "source_position position_packet = Inr (Some (PFloat 0, PFloat 0))"
    by (simp add: source_position_def position_packet_def)
  have dev: "device_position ?within [] = Inr None" "device_position ?outside [] = Inr None"
    "device_position ?zero [] = Inr None"
    by (simp_all add: device_position_def fence_def has_key_def)
  have ref: "reference_position ?within None = Inr (Some (PInt 0, PInt 1))"
    "reference_position ?outside None = Inr (Some (PInt 0, PInt 1))"
    "reference_position ?zero None = Inr (Some (PInt 0, PInt 1))"
    by (simp_all add: reference_position_def fence_def has_key_def cfg_def)
  have hav: "?hav (PFloat 0, PFloat 0) (PInt 0, PInt 1) = Inr 111"
    by simp
  have m1: "comparison_mode ?within = Inr (PStr ''within'')"
    by (simp add: comparison_mode_def fence_def has_key_def)
  have m2: "comparison_mode ?outside = Inr (PStr ''outside'')"
    by (simp add: comparison_mode_def fence_def has_key_def cfg_def)
  have t1: "cfg ?within ''max_distance_km'' = Inr (PInt 111)"
    by (simp add: fence_def cfg_def)
  have t2: "cfg ?outside ''max_distance_km'' = Inr (PInt 111)"
    by (simp add: fence_def cfg_def)
  have t3: "cfg ?zero ''max_distance_km'' = Inr (PInt 0)"
    by (simp add: fence_def cfg_def)
  have w: "LocationFilter_do_action ?hav ?within [] position_packet \<noteq> Inr PNone"
    using geofence_boundary [OF src dev(1) ref(1) hav, of "PInt 111" 111] m1 t1 by simp
  have out: "LocationFilter_do_action ?hav ?outside [] position_packet \<noteq> Inr PNone"
    using geofence_boundary [OF src dev(2) ref(2) hav, of "PInt 111" 111] m2 t2 by simp
  have z: "LocationFilter_do_action ?hav ?zero [] position_packet \<noteq> Inr PNone"
    using geofence_boundary [OF src dev(3) ref(3) hav, of "PInt 0" 0] t3 by simp
  show ?thesis
    using src dev ref m1 m2 w out z by simp
qed

lemma set_position_field_dict:
  assumes "map_of d ''decoded'' = Some (PDict e)" and "map_of e ''position'' = Some (PDict pos)"
  shows "set_position_field (PDict d) field v =
           Inr (PDict (AList.update ''decoded''
                  (PDict (AList.update ''position'' (PDict (AList.update field v pos)) e)) d))"
  using assms by (simp add: set_position_field_def)

lemma get_path_masked:
  "get_path (PDict (AList.update ''decoded''
               (PDict (AList.update ''position'' (PDict pos') e)) d))
     [''decoded'', ''position'', field]
   = (case map_of pos' field of None \<Rightarrow> Inl KeyError | Some v \<Rightarrow> Inr v)"
  by (simp add: update_conv' split: option.splits)

lemma mask_position_dict:
  assumes d: "map_of d ''decoded'' = Some (PDict e)" and e: "map_of e ''position'' = Some (PDict pos)"
  shows "mask_position config (PDict d) =
           Inr (if has_key config ''latitude'' \<or> has_key config ''longitude''
                then PDict (AList.update ''decoded''
                       (PDict (AList.update ''position'' (PDict (mask_fields config pos)) e)) d)
                else PDict d)"
proof (cases "map_of config ''latitude''")
  case nolat: None
  then have k1: "\<not> has_key config ''latitude''"
    by (simp add: has_key_map_of)
  show ?thesis
  proof (cases "map_of config ''longitude''")
    case None
    then have "\<not> has_key config ''longitude''"
      by (simp add: has_key_map_of)
    with k1 show ?thesis by (simp add: mask_position_def)
  next
    case (Some b)
    then have k2: "has_key config ''longitude''" and b: "cfg config ''longitude'' = Inr b"
      by (simp_all add: has_key_map_of cfg_Inr_iff)
    have "set_position_field (PDict d) ''longitude'' b =
        Inr (PDict (AList.update ''decoded''
               (PDict (AList.update ''position'' (PDict (AList.update ''longitude'' b pos)) e)) d))"
      using d e by (rule set_position_field_dict)
    then show ?thesis
      using k1 k2 b nolat Some by (simp add: mask_position_def mask_fields_def)
  qed
next
  case (Some a)
  then have k1: "has_key config ''latitude''" and a: "cfg config ''latitude'' = Inr a"
    by (simp_all add: has_key_map_of cfg_Inr_iff)
  let ?e1 = "AList.update ''position'' (PDict (AList.update ''latitude'' a pos)) e"
  let ?d1 = "AList.update ''decoded'' (PDict ?e1) d"
  have first: "set_position_field (PDict d) ''latitude'' a = Inr (PDict ?d1)"
    using d e by (rule set_position_field_dict)
  show ?thesis
  proof (cases "map_of config ''longitude''")
    case None
    then have "\<not> has_key config ''longitude''"
      by (simp add: has_key_map_of)
    then show ?thesis
      using k1 a first Some None by (simp add: mask_position_def mask_fields_def)
  next
    case lon: (Some b)
    then have k2: "has_key config ''longitude''" and b: "cfg config ''longitude'' = Inr b"
      by (simp_all add: has_key_map_of cfg_Inr_iff)
    have d1: "map_of ?d1 ''decoded'' = Some (PDict ?e1)"
      and e1: "map_of ?e1 ''position'' = Some (PDict (AList.update ''latitude'' a pos))"
      by (simp_all add: update_conv')
    have second: "set_position_field (PDict ?d1) ''longitude'' b =
        Inr (PDict (AList.update ''decoded''
               (PDict (AList.update ''position''
                  (PDict (AList.update ''longitude'' b (AList.update ''latitude'' a pos))) ?e1)) ?d1))"
      using d1 e1 by (rule set_position_field_dict)
    show ?thesis
      using k1 k2 a b first second Some lon by (simp add: mask_position_def mask_fields_def)
  qed
qed

text \<open>
  The masking on a packet that carries a dictionary \<^verbatim>\<open>decoded.position\<close> and is not
  dropped by the distance check (compared, or skipped because a position is missing):
  the stage returns the packet, with that dictionary masked when a coordinate is
  configured and as it came otherwise; nothing else of the packet changes.
\<close>

lemma geofence_masking:
  assumes "distance_check haversine config devs packet = Inr False"
    and "packet = PDict d"
    and "map_of d ''decoded'' = Some (PDict e)"
    and "map_of e ''position'' = Some (PDict pos)"
  shows "LocationFilter_do_action haversine config devs packet =
           Inr (if has_key config ''latitude'' \<or> has_key config ''longitude''
                then PDict (AList.update ''decoded''
                       (PDict (AList.update ''position'' (PDict (mask_fields config pos)) e)) d)
                else packet)"
  using assms mask_position_dict [OF assms(3,4), of config]
  by (simp add: LocationFilter_do_action_def)

lemma mask_fields_read:
  "(map_of config ''latitude'' = Some lat \<longrightarrow> map_of (mask_fields config pos) ''latitude'' = Some lat)
   \<and> (map_of config ''longitude'' = Some lon
        \<longrightarrow> map_of (mask_fields config pos) ''longitude'' = Some lon)"
  by (auto simp: mask_fields_def update_conv' split: option.splits)

text \<open>
  Claim C8 at a packet with no \<^verbatim>\<open>decoded.position\<close>. With \<^verbatim>\<open>latitude\<close>
  configured, the text packet \<^verbatim>\<open>{"decoded": {"text": "hello"}}\<close> passes the distance
  check, which is skipped, and the assignment of line 235 raises KeyError: the stage
  fails where the claim has it return the packet. Lines 195 to 200 guard the same
  subscripts before reading the position. With nothing to mask the same packet is
  returned as it came. The distance library is not called on this input.
\<close>

theorem geofence_masking_fails_without_position:
  "distance_check (\<lambda>src loc. Inl LibError) [(''latitude'', PFloat 10)] []
     (PDict [(''decoded'', PDict [(''text'', PStr ''hello'')])]) = Inr False
   \<and> LocationFilter_do_action (\<lambda>src loc. Inl LibError) [(''latitude'', PFloat 10)] []
       (PDict [(''decoded'', PDict [(''text'', PStr ''hello'')])]) = Inl KeyError
   \<and> LocationFilter_do_action (\<lambda>src loc. Inl LibError) [] []
       (PDict [(''decoded'', PDict [(''text'', PStr ''hello'')])])
     = Inr (PDict [(''decoded'', PDict [(''text'', PStr ''hello'')])])"
  by (simp add: LocationFilter_do_action_def distance_check_def device_position_def
      source_position_def reference_position_def mask_position_def set_position_field_def
      has_key_def cfg_def)

section \<open>Properties of the field and content filter\<close>

lemma allow_violated_empty:
  assumes "getitem filter_val ''allow'' = Inr allow" and "\<not> truthy allow"
  shows "allow_violated filter_val v = Inr False"
proof -
  obtain d where "filter_val = PDict d" "map_of d ''allow'' = Some allow"
    using getitem_Inr_dict [OF assms(1)] by blast
  then show ?thesis
    using assms(2) by (auto simp: allow_violated_def dest: map_of_SomeD)
qed

lemma disallow_violated_empty:
  assumes "getitem filter_val ''disallow'' = Inr disallow" and "\<not> truthy disallow"
  shows "disallow_violated filter_val v = Inr False"
proof -
  obtain d where "filter_val = PDict d" "map_of d ''disallow'' = Some disallow"
    using getitem_Inr_dict [OF assms(1)] by blast
  then show ?thesis
    using assms(2) by (auto simp: disallow_violated_def dest: map_of_SomeD)
qed

lemma empty_message_allow_drops:
  assumes "truthy packet"
    and "getitem packet ''decoded'' = Inr decoded"
    and "getitem decoded ''text'' = Inr text"
    and "truthy text"
    and "cfg config ''message'' = Inr message"
    and "getitem message ''allow'' = Inr (PList [])"
  shows "MessageFilter_do_action re_search config packet = Inr PNone"
proof -
  obtain e where e: "decoded = PDict e" "map_of e ''text'' = Some text"
    using getitem_Inr_dict [OF assms(3)] by blast
  obtain m where m: "message = PDict m" "map_of m ''allow'' = Some (PList [])"
    using getitem_Inr_dict [OF assms(6)] by blast
  have "''text'' \<in> fst ` set e" and "''allow'' \<in> fst ` set m"
    using e(2) m(2) by (auto dest!: map_of_SomeD intro: rev_image_eqI)
  then show ?thesis
    using assms e m cfg_has_key [OF assms(5)]
    by (simp add: MessageFilter_do_action_def message_rules_def)
qed

text \<open>
  Claim C4 at the packet of the specification's scenario A. An empty
  \<^verbatim>\<open>message.allow\<close> list drops the packet: the loop of line 122 finds no match and
  line 126 returns \<^verbatim>\<open>None\<close>. An empty \<^verbatim>\<open>message.disallow\<close> list and an empty
  attribute \<^verbatim>\<open>allow\<close> list, whose test at line 156 asks for a non-empty list, let the
  same packet pass.
\<close>

theorem message_filter_empty_allow_list_drops:
  "MessageFilter_do_action re_search [(''message'', PDict [(''allow'', PList [])])] text_packet
     = Inr PNone
   \<and> MessageFilter_do_action re_search [(''message'', PDict [(''disallow'', PList [])])] text_packet
     = Inr text_packet
   \<and> MessageFilter_do_action re_search [(''from'', PDict [(''allow'', PList [])])] text_packet
     = Inr text_packet"
  by (simp add: MessageFilter_do_action_def message_rules_def allow_violated_def
      disallow_violated_def has_key_def cfg_def text_packet_def)

text \<open>
  Claim C5 at the packet the normaliser makes of the raw text \<^verbatim>\<open>hello\<close>: it has no
  \<^verbatim>\<open>portnum\<close>, \<^verbatim>\<open>fromId\<close> or \<^verbatim>\<open>toId\<close>, and the filter raises KeyError at
  line 145 even with an empty configuration. A packet that lacks only the text passes.
\<close>

theorem message_filter_raises_on_missing_attributes:
  "normalize_packet (\<lambda>v. Inl ValueError) (PStr ''hello'')
     = PDict [(''decoded'', PDict [(''text'', PStr ''hello'')])]
   \<and> MessageFilter_do_action re_search [] (PDict [(''decoded'', PDict [(''text'', PStr ''hello'')])])
     = Inl KeyError
   \<and> MessageFilter_do_action re_search []
       (PDict [(''fromId'', PStr ''!a''), (''toId'', PStr ''!b''),
               (''decoded'', PDict [(''portnum'', PStr ''POSITION_APP'')])])
     = Inr (PDict [(''fromId'', PStr ''!a''), (''toId'', PStr ''!b''),
                   (''decoded'', PDict [(''portnum'', PStr ''POSITION_APP'')])])"
  by (simp add: MessageFilter_do_action_def normalize_packet_def has_key_def)

section \<open>Properties of the crypto stages\<close>

text \<open>
  Where the test \<^verbatim>\<open>"key" not in self.config\<close> holds, the Encrypt stage returns
  \<^verbatim>\<open>None\<close> and the Decrypt stage returns its input; the Decrypt stage also returns
  its input when the test fails and the input is not a string. No library is called on
  these paths.
\<close>

lemma crypto_key_gating:
  "(py_in (PStr ''key'') config = Inr False
      \<longrightarrow> EncryptFilter_do_action lib config packet = Inr PNone)
   \<and> (py_in (PStr ''key'') config = Inr False
      \<longrightarrow> DecryptFilter_do_action lib config packet = Inr packet)
   \<and> (py_in (PStr ''key'') config = Inr True \<and> (\<forall>envelope. packet \<noteq> PStr envelope)
      \<longrightarrow> DecryptFilter_do_action lib config packet = Inr packet)"
  by (cases packet) (simp_all add: EncryptFilter_do_action_def DecryptFilter_do_action_def)

lemma crypto_key_gating_mapping:
  assumes "map_of d ''key'' = None"
  shows "EncryptFilter_do_action lib (PDict d) packet = Inr PNone"
    and "DecryptFilter_do_action lib (PDict d) packet = Inr packet"
  using assms
  by (simp_all add: EncryptFilter_do_action_def DecryptFilter_do_action_def map_of_eq_None_iff)

text \<open>
  Claim C3 at a stage configured with no options, whose \<^verbatim>\<open>self.config\<close> is
  \<^verbatim>\<open>None\<close>: the test \<^verbatim>\<open>"key" not in self.config\<close> of line 594 raises TypeError
  where the claim has the Encrypt stage return \<^verbatim>\<open>None\<close>, and the same test of line
  629 raises TypeError where the claim has the Decrypt stage return its input, for every
  packet and whatever the libraries do. With the empty dictionary as configuration both
  stages do what the claim says.
\<close>

theorem crypto_stages_raise_without_configuration:
  "EncryptFilter_do_action lib PNone packet = Inl TypeError
   \<and> DecryptFilter_do_action lib PNone packet = Inl TypeError
   \<and> EncryptFilter_do_action lib (PDict []) packet = Inr PNone
   \<and> DecryptFilter_do_action lib (PDict []) packet = Inr packet"
  by (simp add: EncryptFilter_do_action_def DecryptFilter_do_action_def)

text \<open>
  The round trip with the debug messages satisfied. The key files load, the key pair is
  valid, the packet serialises to a text that parses back to the packet, and the packet
  has an entry \<^verbatim>\<open>id\<close>: then the Encrypt stage returns an envelope, and the Decrypt
  stage returns the packet from that envelope.
\<close>

lemma crypto_round_trip:
  assumes "getitem encrypt_config ''key'' = Inr public_path"
    and "load_public_key lib public_path = Inr public_key"
    and "getitem decrypt_config ''key'' = Inr private_path"
    and "load_private_key lib private_path = Inr private_key"
    and "valid_key_pair lib public_key private_key"
    and "dumps lib p = Inr message"
    and "loads lib (PBytes message) = Inr p"
    and "getitem p ''id'' = Inr packet_id"
  shows "\<exists>envelope.
           EncryptFilter_do_action lib encrypt_config p = Inr (PStr envelope)
           \<and> DecryptFilter_do_action lib decrypt_config (PStr envelope) = Inr p"
proof -
  obtain jwetoken envelope where enc: "jwe_encrypt lib public_key message = Inr jwetoken"
    and ser: "jwe_serialize lib jwetoken = Inr envelope"
    and dec: "jwe_decrypt lib private_key envelope = Inr message"
    using assms(5) unfolding valid_key_pair_def by blast
  obtain e where e: "encrypt_config = PDict e" "map_of e ''key'' = Some public_path"
    using getitem_Inr_dict [OF assms(1)] by blast
  obtain d where d: "decrypt_config = PDict d" "map_of d ''key'' = Some private_path"
    using getitem_Inr_dict [OF assms(3)] by blast
  have keys: "''key'' \<in> fst ` set e" "''key'' \<in> fst ` set d"
    using e(2) d(2) by (auto dest!: map_of_SomeD intro: rev_image_eqI)
  have "EncryptFilter_do_action lib encrypt_config p = Inr (PStr envelope)"
    using assms(2,6,8) enc ser e keys by (simp add: EncryptFilter_do_action_def)
  moreover have "DecryptFilter_do_action lib decrypt_config (PStr envelope) = Inr p"
    using assms(4,7,8) dec d keys by (simp add: DecryptFilter_do_action_def)
  ultimately show ?thesis by blast
qed

text \<open>
  Claim C2 at a packet with no entry \<^verbatim>\<open>id\<close>. With the key configured and every
  library call succeeding, the Encrypt stage raises KeyError on the packet
  \<^verbatim>\<open>{"decoded": {"text": "hello"}}\<close>: line 618 subscripts \<^verbatim>\<open>packet['id']\<close> for
  the debug message, and no envelope is returned for the Decrypt stage to open. The
  text packet, whose \<^verbatim>\<open>id\<close> is 7, goes through both stages and comes back equal.
\<close>

theorem encrypt_raises_without_id:
  "EncryptFilter_do_action
     (toy_crypto (PDict [(''decoded'', PDict [(''text'', PStr ''hello'')])]) ''text'')
     (PDict [(''key'', PStr ''public.pem'')])
     (PDict [(''decoded'', PDict [(''text'', PStr ''hello'')])]) = Inl KeyError
   \<and> EncryptFilter_do_action (toy_crypto text_packet ''text'')
       (PDict [(''key'', PStr ''public.pem'')]) text_packet = Inr (PStr ''text'')
   \<and> DecryptFilter_do_action (toy_crypto text_packet ''text'')
       (PDict [(''key'', PStr ''private.pem'')]) (PStr ''text'') = Inr text_packet"
  by (simp add: EncryptFilter_do_action_def DecryptFilter_do_action_def toy_crypto_def
      text_packet_def)

section \<open>Properties of the broker egress\<close>

lemma mqtt_not_connected:
  assumes "has_key config ''name''" and "has_key config ''topic''"
    and "cfg config ''name'' = Inr name"
    and "lookup_named servers name = Inr (Some mqtt_server)"
    and "\<not> is_connected mqtt_server"
  shows "MQTTPlugin_do_action json_dumps config servers packet = Inr PNone"
  using assms by (simp add: MQTTPlugin_do_action_def)

text \<open>
  Claim C6 at a broker connection that is established and not connected. The broker
  adapter returns \<^verbatim>\<open>None\<close> for every packet (line 320), where it returns the packet
  when no connection of that name is established (line 314). The tracking adapter
  returns \<^verbatim>\<open>None\<close> for a location packet of a known sender (line 408); \<^verbatim>\<open>str\<close>
  is given by its value on the sender, 101, and the packet, which comes from the radio,
  meets no division.
\<close>

theorem broker_not_connected_returns_none:
  "MQTTPlugin_do_action json_dumps [(''name'', PStr ''local''), (''topic'', PStr ''mesh'')]
     [(''local'', \<lparr>is_connected = False, publish = send\<rparr>)] packet = Inr PNone
   \<and> MQTTPlugin_do_action json_dumps [(''name'', PStr ''local''), (''topic'', PStr ''mesh'')]
       [] packet = Inr packet
   \<and> OwntracksPlugin_do_action (\<lambda>v. ''101'') true_div json_dumps tracking_config
       [(''local'', \<lparr>is_connected = False, publish = send\<rparr>)] tracked_packet = Inr PNone"
proof -
  have "OwntracksPlugin_do_action (\<lambda>v. ''101'') true_div json_dumps tracking_config
       [(''local'', \<lparr>is_connected = False, publish = send\<rparr>)] tracked_packet = Inr PNone"
    by (simp add: OwntracksPlugin_do_action_def tracking_config_def tracked_packet_def
        has_key_def cfg_def from_radio_def andE_def radio_location_def copy_field_def
        copy_field_if_present_def)
  then show ?thesis
    by (simp add: MQTTPlugin_do_action_def has_key_def cfg_def)
qed

section \<open>Properties of the APRS telemetry encoding\<close>

lemma base91_encode_in_range:
  assumes "0 \<le> v" and "v \<le> 8280"
  shows "base91_encode v = Inr [nat (v div 91 + 33), nat (v mod 91 + 33)]"
proof -
  have "0 \<le> v div 91 \<and> v div 91 \<le> 90"
    using assms by presburger
  moreover have "0 \<le> v mod 91 \<and> v mod 91 \<le> 90"
    by presburger
  ultimately show ?thesis
    by (simp add: base91_encode_def py_chr_def Let_def)
qed

lemma seq_after_Suc: "seq_after (Suc n) vals = int n mod 1000"
proof (induction n)
  case 0
  show ?case by (simp add: encode_igate_telemetry_def initial_telemetry_seq_def Let_def)
next
  case (Suc n)
  have "seq_after (Suc (Suc n)) vals = (int n mod 1000 + 1) mod 1000"
    using Suc.IH by (simp add: encode_igate_telemetry_def Let_def)
  also have "\<dots> = (int n + 1) mod 1000"
    by (simp add: mod_add_left_eq)
  finally show ?case by (simp add: add.commute)
qed

text \<open>
  Claim C9. For \<open>0 \<le> v \<le> 8280\<close> the encoder returns the two characters
  \<^verbatim>\<open>chr(v // 91 + 33)\<close> and \<^verbatim>\<open>chr(v % 91 + 33)\<close>, both between 33 and 123, and the
  decoder recovers \<open>v\<close> from them. Each encoding moves the telemetry counter from \<open>s\<close> to
  \<open>(s + 1) mod 1000\<close>: from the startup value to 0, from \<open>s < 999\<close> to \<open>s + 1\<close>,
  from 999 to 0; after \<open>n + 1\<close> encodings since startup it is \<open>n mod 1000\<close>.
\<close>

theorem base91_round_trip_and_sequence:
  "(0 \<le> v \<and> v \<le> 8280 \<longrightarrow>
      (\<exists>cs. base91_encode v = Inr cs
            \<and> cs = [nat (v div 91 + 33), nat (v mod 91 + 33)]
            \<and> list_all (\<lambda>c. 33 \<le> c \<and> c \<le> 123) cs
            \<and> base91_decode cs = Some v))
   \<and> fst (encode_igate_telemetry s vals) = (s + 1) mod 1000
   \<and> fst (encode_igate_telemetry initial_telemetry_seq vals) = 0
   \<and> (0 \<le> s \<and> s < 999 \<longrightarrow> fst (encode_igate_telemetry s vals) = s + 1)
   \<and> fst (encode_igate_telemetry 999 vals) = 0
   \<and> seq_after (Suc n) vals = int n mod 1000"
proof -
  have round: "\<exists>cs. base91_encode v = Inr cs
            \<and> cs = [nat (v div 91 + 33), nat (v mod 91 + 33)]
            \<and> list_all (\<lambda>c. 33 \<le> c \<and> c \<le> 123) cs
            \<and> base91_decode cs = Some v"
    if v: "0 \<le> v" "v \<le> 8280"
  proof -
    have d1: "0 \<le> v div 91 \<and> v div 91 \<le> 90"
      using v by presburger
    have d2: "0 \<le> v mod 91 \<and> v mod 91 \<le> 90"
      by presburger
    have "base91_decode [nat (v div 91 + 33), nat (v mod 91 + 33)] = Some (v div 91 * 91 + v mod 91)"
      using d1 d2 by (simp add: base91_decode_def)
    then have "base91_decode [nat (v div 91 + 33), nat (v mod 91 + 33)] = Some v"
      by simp
    moreover have "list_all (\<lambda>c. 33 \<le> c \<and> c \<le> 123) [nat (v div 91 + 33), nat (v mod 91 + 33)]"
      using d1 d2 by (simp add: le_nat_iff nat_le_iff)
    ultimately show ?thesis
      using base91_encode_in_range [OF v] by simp
  qed
  have step: "fst (encode_igate_telemetry s vals) = (s + 1) mod 1000" for s
    by (simp add: encode_igate_telemetry_def Let_def)
  have "fst (encode_igate_telemetry initial_telemetry_seq vals) = 0"
    by (simp add: step initial_telemetry_seq_def)
  moreover have "fst (encode_igate_telemetry s vals) = s + 1" if "0 \<le> s" "s < 999"
    using that by (simp add: step)
  moreover have "fst (encode_igate_telemetry 999 vals) = 0"
    by (simp add: step)
  ultimately show ?thesis
    using round step seq_after_Suc by blast
qed

text \<open>
  The theorem at the largest value, 8280, which encodes to the pair of code points
  123, 123, and at the counter 998.
\<close>

theorem base91_round_trip_and_sequence_witness:
  "(0::int) \<le> 8280 \<and> (8280::int) \<le> 8280
   \<and> base91_encode 8280 = Inr [123, 123]
   \<and> base91_decode [123, 123] = Some 8280
   \<and> (0::int) \<le> 998 \<and> (998::int) < 999
   \<and> fst (encode_igate_telemetry 998 [3, 12]) = 999
   \<and> fst (encode_igate_telemetry 999 [3, 12]) = 0
   \<and> seq_after (Suc 1000) [3, 12] = 0"
  using base91_round_trip_and_sequence [of 8280 998 "[3, 12]" 1000]
  by (simp add: base91_encode_def py_chr_def base91_decode_def)

section \<open>Stages and their configuration\<close>

lemma map_of_update_other: "k \<noteq> k' \<Longrightarrow> map_of (AList.update k' v al) k = map_of al k"
  by (simp add: update_conv')

lemma webhook_send_outside_headers:
  assumes "k \<noteq> ''headers''"
  shows "map_of (fst (webhook_send env http_post config packet payload url)) k = map_of config k"
proof (cases "map_of config ''headers''")
  case None
  then show ?thesis by (simp add: webhook_send_def)
next
  case (Some h)
  show ?thesis
  proof (cases h)
    case (PDict headers)
    obtain headers' outcome where "substitute_headers env headers headers = (headers', outcome)"
      by (cases "substitute_headers env headers headers")
    then show ?thesis
      using Some PDict assms
      by (cases outcome) (simp_all add: webhook_send_def map_of_update_other)
  qed (use Some in \<open>simp_all add: webhook_send_def\<close>)
qed

lemma webhook_config_outside_headers:
  assumes "k \<noteq> ''headers''"
  shows "map_of (fst (WebhookPlugin_do_action py_str json_loads env http_post config packet)) k
         = map_of config k"
proof (cases "webhook_request py_str json_loads config packet")
  case (Inl e)
  then show ?thesis by (simp add: WebhookPlugin_do_action_def)
next
  case (Inr request)
  obtain payload url where "request = (payload, url)" by (cases request)
  with Inr show ?thesis
    using webhook_send_outside_headers [OF assms]
    by (simp add: WebhookPlugin_do_action_def)
qed

lemma substitute_private_key_outside:
  assumes "k \<noteq> ''private_key''"
  shows "map_of (fst (substitute_private_key env config)) k = map_of config k"
  using assms
proof (induction env arbitrary: config)
  case Nil
  then show ?case by simp
next
  case (Cons a env)
  obtain ek ev where a: "a = (ek, ev)" by (cases a)
  show ?case
    using Cons.IH [OF Cons.prems] Cons.prems
    by (simp add: a map_of_update_other split: sum.splits option.splits)
qed

lemma nostr_config_outside_private_key:
  assumes "k \<noteq> ''private_key''"
  shows "map_of (fst (NoStrPlugin_do_action client env config packet)) k = map_of config k"
proof (cases "nostr_open client config")
  case (Inl e)
  then show ?thesis by (simp add: NoStrPlugin_do_action_def)
next
  case (Inr opened)
  obtain config' outcome where sub: "substitute_private_key env config = (config', outcome)"
    by (cases "substitute_private_key env config")
  then have "map_of config' k = map_of config k"
    using substitute_private_key_outside [OF assms, of env config] by simp
  with Inr sub show ?thesis
    by (cases outcome) (simp_all add: NoStrPlugin_do_action_def)
qed

text \<open>
  Claim C10, as the code has it. Every stage but the webhook dispatcher and the
  relay-network publisher leaves its configuration as it was, for every packet and
  whatever the outcome. The webhook dispatcher leaves every entry but \<^verbatim>\<open>headers\<close>
  as it was, and the relay-network publisher every entry but \<^verbatim>\<open>private_key\<close>.
\<close>

theorem stages_keep_configuration:
  "(stage \<noteq> webhook \<and> stage \<noteq> nostr_plugin
      \<longrightarrow> self_config (fst (do_action w stage self packet)) = self_config self)
   \<and> (k \<noteq> ''headers''
      \<longrightarrow> map_of (self_config (fst (do_action w webhook self packet))) k
          = map_of (self_config self) k)
   \<and> (k \<noteq> ''private_key''
      \<longrightarrow> map_of (self_config (fst (do_action w nostr_plugin self packet))) k
          = map_of (self_config self) k)"
proof -
  have others: "self_config (fst (do_action w stage self packet)) = self_config self"
    if "stage \<noteq> webhook" "stage \<noteq> nostr_plugin"
    using that by (cases stage) (simp_all split: prod.splits)
  have hook: "map_of (self_config (fst (do_action w webhook self packet))) k
      = map_of (self_config self) k" if "k \<noteq> ''headers''"
    using webhook_config_outside_headers [OF that, of "lib_str w" "lib_json_loads w" "os_environ w"
        "lib_http_post w" "self_config self" packet]
    by (auto split: prod.splits)
  have nostr: "map_of (self_config (fst (do_action w nostr_plugin self packet))) k
      = map_of (self_config self) k" if "k \<noteq> ''private_key''"
    using nostr_config_outside_private_key [OF that, of "lib_nostr w" "os_environ w"
        "self_config self" packet]
    by (auto split: prod.splits)
  show ?thesis
    using others hook nostr by blast
qed

text \<open>
  The theorem at the message filter, which is neither of the two stages, and at the
  entry \<^verbatim>\<open>url\<close>, which is neither of the two entries.
\<close>

theorem stages_keep_configuration_witness:
  "message_filter \<noteq> webhook \<and> message_filter \<noteq> nostr_plugin
   \<and> self_config (fst (do_action (plain_world secret_environ) message_filter
        \<lparr>self_config = hook_config, self_telemetry_seq = -1\<rparr> text_packet)) = hook_config
   \<and> ''url'' \<noteq> ''headers'' \<and> ''url'' \<noteq> ''private_key''
   \<and> map_of (self_config (fst (do_action (plain_world secret_environ) webhook
        \<lparr>self_config = hook_config, self_telemetry_seq = -1\<rparr> text_packet))) ''url''
       = Some (PStr ''https://example.org/hook'')
   \<and> map_of (self_config (fst (do_action (plain_world secret_environ) nostr_plugin
        \<lparr>self_config = hook_config, self_telemetry_seq = -1\<rparr> text_packet))) ''url''
       = Some (PStr ''https://example.org/hook'')"
  using stages_keep_configuration [of message_filter "plain_world secret_environ"
      "\<lparr>self_config = hook_config, self_telemetry_seq = -1\<rparr>" text_packet "''url''"]
  by (simp add: hook_config_def)

text \<open>
  Claim C10 as stated fails on the two stages that substitute environment variables.
  With \<^verbatim>\<open>TOKEN=s3cret\<close> in the environment, the webhook dispatcher returns the
  packet and leaves \<^verbatim>\<open>Bearer s3cret\<close> where its configuration had
  \<^verbatim>\<open>Bearer {TOKEN}\<close> (line 288 assigns into \<^verbatim>\<open>self.config["headers"]\<close>), and the
  relay-network publisher leaves \<^verbatim>\<open>s3cret\<close> where its configuration had
  \<^verbatim>\<open>{TOKEN}\<close> (line 767).
\<close>

theorem webhook_and_relay_rewrite_configuration:
  "do_action (plain_world secret_environ) webhook
     \<lparr>self_config = hook_config, self_telemetry_seq = -1\<rparr> text_packet
   = (\<lparr>self_config =
          [(''url'', PStr ''https://example.org/hook''), (''body'', PStr ''{}''),
           (''headers'', PDict [(''Authorization'', PStr ''Bearer s3cret'')])],
        self_telemetry_seq = -1\<rparr>,
      Inr text_packet)
   \<and> hook_config =
       [(''url'', PStr ''https://example.org/hook''), (''body'', PStr ''{}''),
        (''headers'', PDict [(''Authorization'', PStr ''Bearer {TOKEN}'')])]
   \<and> do_action (plain_world secret_environ) nostr_plugin
       \<lparr>self_config = relay_config, self_telemetry_seq = -1\<rparr> text_packet
     = (\<lparr>self_config = [(''private_key'', PStr ''s3cret''), (''public_key'', PStr ''npub1'')],
          self_telemetry_seq = -1\<rparr>,
        Inr text_packet)
   \<and> relay_config = [(''private_key'', PStr ''{TOKEN}''), (''public_key'', PStr ''npub1'')]"
proof -
  have hook: "WebhookPlugin_do_action (\<lambda>v. ''text'')
       (\<lambda>v. if v = PStr ''{}'' then Inr (PDict []) else Inl ValueError)
       secret_environ (\<lambda>url headers payload. Inr True) hook_config text_packet
     = ([(''url'', PStr ''https://example.org/hook''), (''body'', PStr ''{}''),
         (''headers'', PDict [(''Authorization'', PStr ''Bearer s3cret'')])],
        Inr text_packet)"
    by (simp add: WebhookPlugin_do_action_def webhook_request_def webhook_send_def
        webhook_macros_def hook_config_def text_packet_def secret_environ_def has_key_def
        cfg_def replace_method_def str_replace_def)
  have relay: "NoStrPlugin_do_action
       \<lparr> open_relays = (\<lambda>relays startup_wait. Inr ()),
         load_keys = (\<lambda>private_key public_key. Inr ()),
         publish_event = (\<lambda>private_key public_key message publish_wait. Inr ()) \<rparr>
       secret_environ relay_config text_packet
     = ([(''private_key'', PStr ''s3cret''), (''public_key'', PStr ''npub1'')], Inr text_packet)"
    by (simp add: NoStrPlugin_do_action_def nostr_open_def nostr_publish_def
        nostr_message_def relay_config_def text_packet_def secret_environ_def has_key_def
        cfg_def replace_method_def str_replace_def)
  show ?thesis
    using hook relay by (simp add: plain_world_def hook_config_def relay_config_def)
qed

end
